theory Spec2Isabelle
  imports Main
begin

section \<open>Values shared by the driver and its collaborators\<close>

text \<open>
  Everything the TypeScript can throw is a value of \<open>exn\<close>: a structured error reply of the
  server (\<open>cms.ServerError\<close>), the driver's own \<open>NoGeneratorError\<close>, a plain \<open>Error\<close>
  (\<open>Error('Unable to start cms client')\<close>, a failed start-up, a lost connection), and the
  runtime's \<open>TypeError\<close>.
\<close>

datatype exn = ServerError string | NoGeneratorError | Error string | TypeError string

text \<open>
  What the loggers receive. Each constructor stands for one call site of the source, with the
  argument substituted for \<open>{0}\<close>:
  \<^item> \<open>UnknownCacheEntryType t\<close>: \<open>rollbar.error('Unknown cache entry type {0}', el.type)\<close>;
  \<^item> \<open>ConfigureError e\<close>: \<open>log.error('Error during CMake configure: {0}', errorToString(e))\<close>;
  \<^item> \<open>NoMatchingCodeModel\<close>: \<open>log.error('Found no matching code model for the current build type. ...')\<close>;
  \<^item> \<open>CommandLine args\<close>: \<open>log.info(proc.buildCmdStr(this.cmake.path, args))\<close>.
\<close>

datatype diagnostic =
    UnknownCacheEntryType string
  | ConfigureError exn
  | NoMatchingCodeModel
  | CommandLine "string list"

text \<open>
  A JavaScript object literal inherits from \<open>Object.prototype\<close>, so a property read
  \<open>obj[k]\<close> and the test \<open>k in obj\<close> also see the names below (the own property names of
  \<open>Object.prototype\<close> in V8, the engine the extension host runs on).
\<close>

definition object_prototype_keys :: "string list" where
  "object_prototype_keys =
     [''constructor'', ''__defineGetter__'', ''__defineSetter__'', ''hasOwnProperty'',
      ''__lookupGetter__'', ''__lookupSetter__'', ''isPrototypeOf'', ''propertyIsEnumerable'',
      ''toString'', ''valueOf'', ''__proto__'', ''toLocaleString'']"

section \<open>The cache model rebuilt by \<open>_refreshPostConfigure\<close>\<close>

text \<open>\<open>api.CacheEntryType\<close>, the closed set of entry types.\<close>

datatype CacheEntryType = Bool | String | Path | FilePath | Internal | Uninitialized | Static

text \<open>
  What \<open>entry_map[el.type]\<close> evaluates to when it is not \<open>undefined\<close>: a member of the enum
  (an own property of the literal), or the value of the inherited property of that name.
\<close>

datatype type_slot = Member CacheEntryType | Inherited string

text \<open>One element of \<open>clcache.cache\<close> (\<open>cms.CacheEntry\<close>) and its \<open>properties\<close>.\<close>

record CacheEntryProperties =
  ADVANCED :: "string option"
  HELPSTRING :: "string option"

record raw_entry =
  re_key :: string
  re_properties :: CacheEntryProperties
  re_type :: string
  re_value :: string

text \<open>
  \<open>cache.Entry\<close>: the five arguments \<open>new cache.Entry(key, value, type, docs, advanced)\<close> is
  given (the class itself lives in \<open>@cmt/cache\<close>).
\<close>

record Entry =
  e_key :: string
  e_value :: string
  e_type :: type_slot
  e_docs :: "string option"
  e_advanced :: bool

text \<open>The object literal \<open>entry_map\<close> of the reducer: its seven own properties.\<close>

definition entry_map :: "(string \<times> CacheEntryType) list" where
  "entry_map =
     [(''BOOL'', Bool), (''STRING'', String), (''PATH'', Path), (''FILEPATH'', FilePath),
      (''INTERNAL'', Internal), (''UNINITIALIZED'', Uninitialized), (''STATIC'', Static)]"

text \<open>\<open>entry_map[k]\<close>; \<open>None\<close> is \<open>undefined\<close>.\<close>

definition entry_map_get :: "string \<Rightarrow> type_slot option" where
  "entry_map_get k =
     (case map_of entry_map k of
        Some t \<Rightarrow> Some (Member t)
      | None \<Rightarrow> if k \<in> set object_prototype_keys then Some (Inherited k) else None)"

text \<open>
  A JavaScript \<open>Map\<close> as the list of its entries in insertion order; \<open>Map.prototype.set\<close>
  replaces the value of a key that is present, in place, and appends a new key.
\<close>

type_synonym ('k, 'v) js_map = "('k \<times> 'v) list"

fun map_set :: "('k, 'v) js_map \<Rightarrow> 'k \<Rightarrow> 'v \<Rightarrow> ('k, 'v) js_map" where
  "map_set [] k v = [(k, v)]"
| "map_set ((k', v') # m) k v =
     (if k' = k then (k, v) # m else (k', v') # map_set m k v)"

text \<open>
  The callback of \<open>clcache.cache.reduce\<close>. The accumulator is paired with the diagnostics
  \<open>rollbar.error\<close> has received so far.
\<close>

definition cache_reducer ::
  "(string, Entry) js_map \<times> diagnostic list \<Rightarrow> raw_entry \<Rightarrow> (string, Entry) js_map \<times> diagnostic list" where
  "cache_reducer st el =
     (case st of (acc, lg) \<Rightarrow>
        (case entry_map_get (re_type el) of
           None \<Rightarrow> (acc, lg @ [UnknownCacheEntryType (re_type el)])
         | Some ty \<Rightarrow>
             (map_set acc (re_key el)
                \<lparr>e_key = re_key el, e_value = re_value el, e_type = ty,
                 e_docs = HELPSTRING (re_properties el),
                 e_advanced = (ADVANCED (re_properties el) = Some ''1'')\<rparr>,
              lg)))"

text \<open>\<open>clcache.cache.reduce(..., new Map())\<close>: the rebuilt cache and what was logged.\<close>

definition rebuild_cache :: "raw_entry list \<Rightarrow> (string, Entry) js_map \<times> diagnostic list" where
  "rebuild_cache raw = foldl cache_reducer ([], []) raw"

section \<open>The code model and its translation\<close>

text \<open>
  The server's reply to \<open>codemodel\<close> (\<open>cms.ServerCodeModelContent\<close>), with the fields
  \<open>convertServerCodeModel\<close> reads. A field the TypeScript may find \<open>undefined\<close> is an
  \<open>option\<close>.
\<close>

record IncludePath =
  ip_path :: string
  ip_isSystem :: "bool option"

record ServerCodeModelFileGroup =
  sg_sources :: "string list"
  sg_language :: "string option"
  sg_includePath :: "IncludePath list option"
  sg_defines :: "string list option"
  sg_isGenerated :: bool
  sg_compileFlags :: "string option"

record ServerCodeModelTarget =
  st_name :: string
  st_type :: string
  st_sourceDirectory :: "string option"
  st_fullName :: "string option"
  st_artifacts :: "string list option"
  st_sysroot :: "string option"
  st_linkLanguageFlags :: "string option"
  st_fileGroups :: "ServerCodeModelFileGroup list option"

record ServerCodeModelProject =
  sp_name :: string
  sp_sourceDirectory :: string
  sp_hasInstallRule :: "bool option"
  sp_targets :: "ServerCodeModelTarget list"

record ServerCodeModelConfiguration =
  sc_name :: string
  sc_projects :: "ServerCodeModelProject list"

record ServerCodeModelContent =
  sm_configurations :: "ServerCodeModelConfiguration list"

text \<open>The driver's normalized code model (\<open>@cmt/drivers/codeModel\<close>).\<close>

record CodeModelFileGroup =
  g_sources :: "string list"
  g_language :: "string option"
  g_includePath :: "IncludePath list option"
  g_defines :: "string list option"
  g_isGenerated :: bool
  g_compileCommandFragments :: "string list"

record CodeModelTarget =
  t_name :: string
  t_type :: string
  t_sourceDirectory :: "string option"
  t_fullName :: "string option"
  t_artifacts :: "string list option"
  t_sysroot :: "string option"
  t_fileGroups :: "CodeModelFileGroup list"

record CodeModelProject =
  p_name :: string
  p_sourceDirectory :: string
  p_hasInstallRule :: "bool option"
  p_targets :: "CodeModelTarget list"

record CodeModelConfiguration =
  c_name :: string
  c_projects :: "CodeModelProject list"

record CodeModelContent =
  m_configurations :: "CodeModelConfiguration list"

text \<open>
  JavaScript truthiness of an optional string, as the conditional operator tests it:
  \<open>undefined\<close> and the empty string are falsy.
\<close>

definition truthy :: "string option \<Rightarrow> bool" where
  "truthy s = (case s of None \<Rightarrow> False | Some v \<Rightarrow> v \<noteq> [])"

text \<open>
  The body of the innermost loop of \<open>convertServerCodeModel\<close>: the new group, given the
  enclosing target's \<open>linkLanguageFlags\<close>.
\<close>

definition convertFileGroup :: "string option \<Rightarrow> ServerCodeModelFileGroup \<Rightarrow> CodeModelFileGroup" where
  "convertFileGroup linkLanguageFlags grp =
     \<lparr>g_sources = sg_sources grp,
      g_language = sg_language grp,
      g_includePath = sg_includePath grp,
      g_defines = sg_defines grp,
      g_isGenerated = sg_isGenerated grp,
      g_compileCommandFragments =
        (if truthy (sg_compileFlags grp) then [the (sg_compileFlags grp)]
         else if truthy linkLanguageFlags then [the linkLanguageFlags]
         else [])\<rparr>"

text \<open>
  Each \<open>for ... of\<close> loop pushes one converted element per element of the server's list, in
  order, onto a list that starts empty: a \<open>map\<close>. A target whose \<open>fileGroups\<close> is
  \<open>undefined\<close> keeps the empty list it was created with.
\<close>

definition convertTarget :: "ServerCodeModelTarget \<Rightarrow> CodeModelTarget" where
  "convertTarget target =
     \<lparr>t_name = st_name target,
      t_type = st_type target,
      t_sourceDirectory = st_sourceDirectory target,
      t_fullName = st_fullName target,
      t_artifacts = st_artifacts target,
      t_sysroot = st_sysroot target,
      t_fileGroups =
        (case st_fileGroups target of
           None \<Rightarrow> []
         | Some groups \<Rightarrow> map (convertFileGroup (st_linkLanguageFlags target)) groups)\<rparr>"

definition convertProject :: "ServerCodeModelProject \<Rightarrow> CodeModelProject" where
  "convertProject project =
     \<lparr>p_name = sp_name project,
      p_sourceDirectory = sp_sourceDirectory project,
      p_hasInstallRule = sp_hasInstallRule project,
      p_targets = map convertTarget (sp_targets project)\<rparr>"

definition convertConfiguration :: "ServerCodeModelConfiguration \<Rightarrow> CodeModelConfiguration" where
  "convertConfiguration config =
     \<lparr>c_name = sc_name config, c_projects = map convertProject (sc_projects config)\<rparr>"

definition convertServerCodeModel :: "ServerCodeModelContent option \<Rightarrow> CodeModelContent option" where
  "convertServerCodeModel serverCodeModel =
     (case serverCodeModel of
        Some scm \<Rightarrow> Some \<lparr>m_configurations = map convertConfiguration (sm_configurations scm)\<rparr>
      | None \<Rightarrow> None)"

section \<open>The targets views\<close>

record RichTarget =
  rt_type :: string
  rt_name :: string
  rt_filepath :: string
  rt_targetType :: string

text \<open>
  The mapping of one code model target in the \<open>targets\<close> getter. \<open>path_normalize\<close> is Node's
  \<open>path.normalize\<close>.
\<close>

definition richTarget :: "(string \<Rightarrow> string) \<Rightarrow> CodeModelTarget \<Rightarrow> RichTarget" where
  "richTarget path_normalize t =
     \<lparr>rt_type = ''rich'',
      rt_name = t_name t,
      rt_filepath =
        (case t_artifacts t of
           Some (a # as) \<Rightarrow> path_normalize a
         | _ \<Rightarrow> ''Utility target''),
      rt_targetType = t_type t\<rparr>"

definition buildAllTarget :: "string \<Rightarrow> RichTarget" where
  "buildAllTarget allTargetName =
     \<lparr>rt_type = ''rich'', rt_name = allTargetName,
      rt_filepath = ''A special target to build all available targets'',
      rt_targetType = ''META''\<rparr>"

definition installTarget :: RichTarget where
  "installTarget =
     \<lparr>rt_type = ''rich'', rt_name = ''install'',
      rt_filepath = ''A special target to install all available targets'',
      rt_targetType = ''META''\<rparr>"

text \<open>\<open>project => (project.hasInstallRule) ? project.hasInstallRule : false\<close>\<close>

definition declaresInstallRule :: "CodeModelProject \<Rightarrow> bool" where
  "declaresInstallRule project = (case p_hasInstallRule project of Some b \<Rightarrow> b | None \<Rightarrow> False)"

text \<open>
  The \<open>targets\<close> getter, as a function of what it reads: the code model, and the base class's
  \<open>currentBuildType\<close> and \<open>allTargetName\<close>. It returns the list together with what it logs.
  \<open>reduce\<close> with \<open>acc.concat(...)\<close> from \<open>metaTargets\<close> is a left fold of append.
\<close>

definition targets_of ::
  "(string \<Rightarrow> string) \<Rightarrow> CodeModelContent option \<Rightarrow> string \<Rightarrow> string \<Rightarrow> RichTarget list \<times> diagnostic list" where
  "targets_of path_normalize codeModel currentBuildType allTargetName =
     (case codeModel of
        None \<Rightarrow> ([], [])
      | Some cm \<Rightarrow>
          (case find (\<lambda>conf. c_name conf = currentBuildType) (m_configurations cm) of
             None \<Rightarrow> ([], [NoMatchingCodeModel])
           | Some build_config \<Rightarrow>
               (let metaTargets =
                      [buildAllTarget allTargetName] @
                      (if list_ex declaresInstallRule (c_projects build_config)
                       then [installTarget] else [])
                in (foldl (\<lambda>acc project. acc @ map (richTarget path_normalize) (p_targets project))
                      metaTargets (c_projects build_config), []))))"

text \<open>The module-level helper \<open>targetReducer\<close>.\<close>

definition targetReducer :: "RichTarget list \<Rightarrow> RichTarget \<Rightarrow> RichTarget list" where
  "targetReducer set' t =
     (case find (\<lambda>t2. rt_name t = rt_name t2 \<and> rt_filepath t = rt_filepath t2
                      \<and> rt_targetType t = rt_targetType t2) set' of
        None \<Rightarrow> set' @ [t]
      | Some _ \<Rightarrow> set')"

text \<open>What \<open>targetReducer\<close> compares: the name, the file path and the target type.\<close>

definition triple :: "RichTarget \<Rightarrow> string \<times> string \<times> string" where
  "triple t = (rt_name t, rt_filepath t, rt_targetType t)"

section \<open>The input file set\<close>

text \<open>
  \<open>InputFileSet\<close> is the dirty tracker of \<open>@cmt/dirty\<close>; the driver reads its \<open>inputFiles\<close>
  and each file's \<open>filePath\<close>. A modification time of \<open>None\<close> is a file that was absent.
  The file system is the function from a path to its current modification time.
\<close>

record InputFile =
  filePath :: string
  mtime :: "nat option"

record InputFileSet =
  inputFiles :: "InputFile list"

type_synonym filesystem = "string \<Rightarrow> nat option"

definition createEmpty :: InputFileSet where
  "createEmpty = \<lparr>inputFiles = []\<rparr>"

text \<open>
  Modelled from the spec: \<open>InputFileSet.create\<close>, whose code is in \<open>@cmt/dirty\<close>. It
  "snapshots the current modification time of every given path; a missing file is recorded as
  absent".
\<close>

definition create :: "filesystem \<Rightarrow> string list \<Rightarrow> InputFileSet" where
  "create fs paths = \<lparr>inputFiles = map (\<lambda>p. \<lparr>filePath = p, mtime = fs p\<rparr>) paths\<rparr>"

text \<open>
  Modelled from the spec: \<open>InputFileSet.checkOutOfDate\<close>, whose code is in \<open>@cmt/dirty\<close>. It
  "returns true if any file's time differs from the snapshot, any previously-present file is
  now absent, or any previously-absent file now exists", and false only if every file matches.
\<close>

definition checkOutOfDate :: "filesystem \<Rightarrow> InputFileSet \<Rightarrow> bool" where
  "checkOutOfDate fs ifs = list_ex (\<lambda>f. fs (filePath f) \<noteq> mtime f) (inputFiles ifs)"

section \<open>The driver\<close>

text \<open>
  A started \<open>CMakeServerClient\<close> is known by its number: the \<open>n\<close>-th client that came up.
\<close>

type_synonym client = nat

type_synonym CMakeGenerator = string

record GlobalSettingsContent =
  gs_generator :: string

text \<open>
  What the driver reads of its base class \<open>CMakeDriver\<close>, and what a kit or preset mutation
  callback can change: \<open>this.generator\<close>, \<open>this.currentBuildType\<close>, \<open>this.allTargetName\<close>.
\<close>

record base =
  generator :: "CMakeGenerator option"
  currentBuildType :: string
  allTargetName :: string

text \<open>
  The operations below are the \<open>async\<close> methods run to completion, one after the other:
  an \<open>await\<close> of a rejected promise throws, a \<open>throw\<close> is the result \<open>Inl\<close>, and what
  was assigned before it stays assigned. Operations that are pending at the same time, and
  the order in which their continuations run, are outside this model.

  The fields of \<open>CMakeServerDriver\<close>. A promise-valued field holds what awaiting it yields
  once the operation that produced it has run: \<open>cmsClient\<close> is \<open>Inl e\<close> for a rejected
  promise, \<open>Inr None\<close> for \<open>null\<close> and \<open>Inr (Some c)\<close> for a client;
  \<open>clientChangeInProgress\<close> is \<open>Some e\<close> for a rejected promise and \<open>None\<close> for a fulfilled
  one. The last six fields are what the driver does to the outside: the diagnostics logged,
  the events fired on \<open>_codeModelChanged\<close>, the listeners \<open>doConfigure\<close> has on \<open>onMessage\<close>,
  the number of clients started, the clients started and not shut down, and the calls of the
  base class's \<open>_cleanPriorConfiguration\<close>.
\<close>

record driver =
  cmsClient :: "exn + client option"
  clientChangeInProgress :: "exn option"
  globalSettings :: "GlobalSettingsContent option"
  cacheEntries :: "(string, Entry) js_map"
  cmakeInputFileSet :: InputFileSet
  codeModel :: "CodeModelContent option"
  hadConfigurationChanged :: bool
  base :: base
  diagnostics :: "diagnostic list"
  codeModelChanged :: "CodeModelContent option list"
  messageListeners :: nat
  started :: nat
  live :: "client list"
  cleaned :: nat

text \<open>
  The server behind the client: what \<open>CMakeServerClient.start\<close> and each request answer.
  \<open>None\<close> in an \<open>exn option\<close> is success.
\<close>

record server =
  sv_start :: "exn option"
  sv_getGlobalSettings :: "exn + GlobalSettingsContent"
  sv_configure :: "string list \<Rightarrow> exn option"
  sv_compute :: "exn option"
  sv_cmakeInputs :: "exn + string list"
  sv_getCMakeCacheContent :: "exn + raw_entry list"
  sv_codemodel :: "exn + ServerCodeModelContent option"

text \<open>The field initializers of the class.\<close>

definition new_driver :: "base \<Rightarrow> driver" where
  "new_driver b =
     \<lparr>cmsClient = Inr None, clientChangeInProgress = None, globalSettings = None,
      cacheEntries = [], cmakeInputFileSet = createEmpty, codeModel = None,
      hadConfigurationChanged = True, base = b, diagnostics = [], codeModelChanged = [],
      messageListeners = 0, started = 0, live = [], cleaned = 0\<rparr>"

text \<open>
  Modelled from the spec: \<open>CMakeServerClient.shutdownAsync\<close>, whose code is in
  \<open>@cmt/drivers/cmakeServerClient\<close>: it "releases the connection; idempotent".
\<close>

definition shutdownAsync :: "client \<Rightarrow> driver \<Rightarrow> driver" where
  "shutdownAsync c d = d\<lparr>live := removeAll c (live d)\<rparr>"

text \<open>The base class's \<open>_cleanPriorConfiguration\<close>, counted.\<close>

definition cleanPriorConfiguration :: "driver \<Rightarrow> driver" where
  "cleanPriorConfiguration d = d\<lparr>cleaned := Suc (cleaned d)\<rparr>"

text \<open>The settled value of the promise an \<open>async\<close> function returning a client gives.\<close>

definition settled :: "exn + client \<Rightarrow> exn + client option" where
  "settled r = (case r of Inl e \<Rightarrow> Inl e | Inr c \<Rightarrow> Inr (Some c))"

text \<open>
  \<open>_startNewClient\<close>: without a generator it throws; otherwise the outcome is that of
  \<open>CMakeServerClient.start\<close> (the base class's \<open>getConfigureEnvironment\<close>, awaited for one of
  the arguments, is taken to succeed).
\<close>

definition startNewClient :: "server \<Rightarrow> driver \<Rightarrow> (exn + client) \<times> driver" where
  "startNewClient sv d =
     (if generator (base d) = None then (Inl NoGeneratorError, d)
      else (case sv_start sv of
              Some e \<Rightarrow> (Inl e, d)
            | None \<Rightarrow> (Inr (started d),
                       d\<lparr>started := Suc (started d), live := live d @ [started d]\<rparr>)))"

definition getClient :: "server \<Rightarrow> driver \<Rightarrow> (exn + client) \<times> driver" where
  "getClient sv d =
     (case cmsClient d of
        Inl e \<Rightarrow> (Inl e, d)
      | Inr cur \<Rightarrow>
          (let d1 = (if cur = None
                     then (case startNewClient sv d of (r, d') \<Rightarrow> d'\<lparr>cmsClient := settled r\<rparr>)
                     else d)
           in (case cmsClient d1 of
                 Inl e \<Rightarrow> (Inl e, d1)
               | Inr None \<Rightarrow> (Inl (Error ''Unable to start cms client''), d1)
               | Inr (Some client_started) \<Rightarrow> (Inr client_started, d1))))"

definition doRestartClient :: "server \<Rightarrow> driver \<Rightarrow> (exn + client) \<times> driver" where
  "doRestartClient sv d =
     (case cmsClient d of
        Inl e \<Rightarrow> (Inl e, d)
      | Inr old_client \<Rightarrow>
          startNewClient sv (case old_client of Some c \<Rightarrow> shutdownAsync c d | None \<Rightarrow> d))"

definition restartClient :: "server \<Rightarrow> driver \<Rightarrow> (exn + unit) \<times> driver" where
  "restartClient sv d =
     (case doRestartClient sv d of (r, d1) \<Rightarrow>
        (case getClient sv (d1\<lparr>cmsClient := settled r\<rparr>) of
           (Inl e, d2) \<Rightarrow> (Inl e, d2)
         | (Inr client, d2) \<Rightarrow>
             (case sv_getGlobalSettings sv of
                Inl e \<Rightarrow> (Inl e, d2)
              | Inr gs \<Rightarrow> (Inr (), d2\<lparr>globalSettings := Some gs\<rparr>))))"

text \<open>
  \<open>_setKitAndRestart\<close>. The mutation callback \<open>cb\<close> works on the base class's state and may
  throw.
\<close>

definition setKitAndRestart ::
  "server \<Rightarrow> bool \<Rightarrow> (base \<Rightarrow> exn option \<times> base) \<Rightarrow> driver \<Rightarrow> (exn + unit) \<times> driver" where
  "setKitAndRestart sv need_clean cb d =
     (let d1 = d\<lparr>cmakeInputFileSet := createEmpty\<rparr> in
      case cmsClient d1 of
        Inl e \<Rightarrow> (Inl e, d1)
      | Inr client \<Rightarrow>
          (let d2 = (case client of Some c \<Rightarrow> shutdownAsync c d1 | None \<Rightarrow> d1);
               d3 = (if need_clean then cleanPriorConfiguration d2 else d2)
           in (case cb (base d3) of (thrown, b) \<Rightarrow>
                 (let d4 = d3\<lparr>base := b\<rparr> in
                  case thrown of
                    Some e \<Rightarrow> (Inl e, d4)
                  | None \<Rightarrow>
                      if generator (base d4) = None then (Inl NoGeneratorError, d4)
                      else restartClient sv d4))))"

text \<open>The promise stored in \<open>_clientChangeInProgress\<close> settles as the call does.\<close>

definition record_change :: "(exn + unit) \<times> driver \<Rightarrow> (exn + unit) \<times> driver" where
  "record_change rd =
     (case rd of (r, d) \<Rightarrow>
        (r, d\<lparr>clientChangeInProgress := (case r of Inl e \<Rightarrow> Some e | Inr _ \<Rightarrow> None)\<rparr>))"

definition doSetKit :: "server \<Rightarrow> (base \<Rightarrow> exn option \<times> base) \<Rightarrow> driver \<Rightarrow> (exn + unit) \<times> driver" where
  "doSetKit sv cb d = record_change (setKitAndRestart sv False cb d)"

definition doSetConfigurePreset ::
  "server \<Rightarrow> bool \<Rightarrow> (base \<Rightarrow> exn option \<times> base) \<Rightarrow> driver \<Rightarrow> (exn + unit) \<times> driver" where
  "doSetConfigurePreset sv need_clean cb d = record_change (setKitAndRestart sv need_clean cb d)"

text \<open>\<open>_refreshPostConfigure\<close>\<close>

definition refreshPostConfigure :: "server \<Rightarrow> filesystem \<Rightarrow> driver \<Rightarrow> (exn + unit) \<times> driver" where
  "refreshPostConfigure sv fs d =
     (case getClient sv d of
        (Inl e, d1) \<Rightarrow> (Inl e, d1)
      | (Inr client, d1) \<Rightarrow>
          (case sv_cmakeInputs sv of
             Inl e \<Rightarrow> (Inl e, d1)
           | Inr cmake_inputs \<Rightarrow>
               (let d2 = d1\<lparr>cmakeInputFileSet := create fs cmake_inputs\<rparr> in
                case sv_getCMakeCacheContent sv of
                  Inl e \<Rightarrow> (Inl e, d2)
                | Inr clcache \<Rightarrow>
                    (let d3 = d2\<lparr>cacheEntries := fst (rebuild_cache clcache),
                                 diagnostics := diagnostics d2 @ snd (rebuild_cache clcache)\<rparr>
                     in case sv_codemodel sv of
                          Inl e \<Rightarrow> (Inl e, d3)
                        | Inr scm \<Rightarrow>
                            (Inr (),
                             d3\<lparr>codeModel := convertServerCodeModel scm,
                                codeModelChanged :=
                                  codeModelChanged d3 @ [convertServerCodeModel scm]\<rparr>)))))"

text \<open>
  The \<open>catch\<close> and \<open>finally\<close> clauses of \<open>doConfigure\<close>: the listener is disposed either way;
  a \<open>ServerError\<close> is logged and becomes the result 1, anything else is thrown again.
\<close>

definition configure_failed :: "exn \<Rightarrow> driver \<Rightarrow> (exn + nat) \<times> driver" where
  "configure_failed e d =
     (case e of
        ServerError msg \<Rightarrow>
          (Inr 1, d\<lparr>diagnostics := diagnostics d @ [ConfigureError e],
                    messageListeners := messageListeners d - 1\<rparr>)
      | _ \<Rightarrow> (Inl e, d\<lparr>messageListeners := messageListeners d - 1\<rparr>))"

definition doConfigure ::
  "server \<Rightarrow> filesystem \<Rightarrow> string list \<Rightarrow> bool \<Rightarrow> driver \<Rightarrow> (exn + nat) \<times> driver" where
  "doConfigure sv fs args showCommandOnly d =
     (case clientChangeInProgress d of
        Some e \<Rightarrow> (Inl e, d)
      | None \<Rightarrow>
          (case getClient sv d of
             (Inl e, d1) \<Rightarrow> (Inl e, d1)
           | (Inr cl, d1) \<Rightarrow>
               (let d2 = d1\<lparr>messageListeners := Suc (messageListeners d1)\<rparr> in
                if showCommandOnly
                then (Inr 0, d2\<lparr>diagnostics := diagnostics d2 @ [CommandLine args]\<rparr>)
                else
                  (let d3 = d2\<lparr>hadConfigurationChanged := False\<rparr> in
                   case sv_configure sv args of
                     Some e \<Rightarrow> configure_failed e d3
                   | None \<Rightarrow>
                       (case sv_compute sv of
                          Some e \<Rightarrow> configure_failed e d3
                        | None \<Rightarrow>
                            (case refreshPostConfigure sv fs
                                    (d3\<lparr>messageListeners := messageListeners d3 - 1\<rparr>) of
                               (Inl e, d4) \<Rightarrow> (Inl e, d4)
                             | (Inr u, d4) \<Rightarrow> (Inr 0, d4)))))))"

definition doConfigureSettingsChange :: "driver \<Rightarrow> driver" where
  "doConfigureSettingsChange d = d\<lparr>hadConfigurationChanged := True\<rparr>"

definition checkNeedsReconfigure :: "filesystem \<Rightarrow> driver \<Rightarrow> bool" where
  "checkNeedsReconfigure fs d =
     (if hadConfigurationChanged d then hadConfigurationChanged d
      else if length (inputFiles (cmakeInputFileSet d)) = 0 then True
      else checkOutOfDate fs (cmakeInputFileSet d))"

text \<open>The getters \<open>targets\<close> and \<open>uniqueTargets\<close> of a driver.\<close>

definition targets :: "(string \<Rightarrow> string) \<Rightarrow> driver \<Rightarrow> RichTarget list" where
  "targets path_normalize d =
     fst (targets_of path_normalize (codeModel d) (currentBuildType (base d)) (allTargetName (base d)))"

definition uniqueTargets :: "(string \<Rightarrow> string) \<Rightarrow> driver \<Rightarrow> RichTarget list" where
  "uniqueTargets path_normalize d = foldl targetReducer [] (targets path_normalize d)"

section \<open>The configuration reader\<close>

text \<open>
  A setting's value is opaque to \<open>updatePartial\<close>, which only compares values, tests them
  against \<open>undefined\<close> and passes them on. \<open>Builtin k\<close> is the value of the property \<open>k\<close> of
  \<open>Object.prototype\<close>. An object is the list of its own properties in the order
  \<open>Object.getOwnPropertyNames\<close> gives them.
\<close>

datatype 'v jsval = Undefined | Defined 'v | Builtin string

type_synonym 'v js_object = "(string, 'v jsval) js_map"

text \<open>\<open>util.Ordering\<close>, the result of \<open>util.compare\<close> (both of \<open>@cmt/util\<close>).\<close>

datatype Ordering = Greater | Equivalent | Less

text \<open>The property read \<open>obj[k]\<close>.\<close>

definition get_prop :: "'v js_object \<Rightarrow> string \<Rightarrow> 'v jsval" where
  "get_prop obj k =
     (case map_of obj k of
        Some v \<Rightarrow> v
      | None \<Rightarrow> if k \<in> set object_prototype_keys then Builtin k else Undefined)"

text \<open>
  \<open>Object.assign(target, source)\<close>: every own property of the source is set on the target,
  in order. (For the one name \<open>__proto__\<close> JavaScript would call the prototype's setter
  instead of creating a property; every statement below about \<open>updatePartial\<close> excludes the
  names of \<open>Object.prototype\<close> from the new data.)
\<close>

definition object_assign :: "'v js_object \<Rightarrow> 'v js_object \<Rightarrow> 'v js_object" where
  "object_assign target source = foldl (\<lambda>t kv. map_set t (fst kv) (snd kv)) target source"

text \<open>The own properties of the object literal \<open>_emitters\<close>: one emitter per setting.\<close>

definition emitters :: "string list" where
  "emitters =
     [''autoSelectActiveFolder'', ''cmakePath'', ''buildDirectory'', ''installPrefix'',
      ''sourceDirectory'', ''saveBeforeBuild'', ''buildBeforeRun'', ''clearOutputBeforeBuild'',
      ''configureSettings'', ''cacheInit'', ''preferredGenerators'', ''generator'',
      ''toolset'', ''platform'', ''configureArgs'', ''buildArgs'', ''buildToolArgs'',
      ''parallelJobs'', ''ctestPath'', ''ctest'', ''parseBuildDiagnostics'',
      ''enabledOutputParsers'', ''debugConfig'', ''defaultVariants'', ''ctestArgs'',
      ''ctestDefaultArgs'', ''environment'', ''configureEnvironment'', ''buildEnvironment'',
      ''testEnvironment'', ''mingwSearchDirs'', ''emscriptenSearchDirs'',
      ''mergedCompileCommands'', ''copyCompileCommands'', ''configureOnOpen'',
      ''configureOnEdit'', ''skipConfigureIfCachePresent'', ''useCMakeServer'',
      ''cmakeCommunicationMode'', ''showSystemKits'', ''ignoreKitEnv'', ''buildTask'',
      ''outputLogEncoding'', ''enableTraceLogging'', ''loggingLevel'', ''additionalKits'',
      ''touchbar'', ''statusbar'', ''useCMakePresets'', ''allowCommentsInPresetsFile'',
      ''ignoreCMakeListsMissing'', ''launchBehavior'']"

text \<open>\<open>key in this._emitters\<close>: own or inherited.\<close>

definition in_emitters :: "string \<Rightarrow> bool" where
  "in_emitters key = (key \<in> set emitters \<or> key \<in> set object_prototype_keys)"

text \<open>
  The reader: its \<open>configData\<close>, the callbacks registered through \<open>onChange\<close> (each known by
  a number, with the setting it watches) and the calls the emitters have made so far: the
  setting, the callback and the value passed.
\<close>

record 'v reader =
  configData :: "'v js_object"
  listeners :: "(string \<times> nat) list"
  invoked :: "(string \<times> nat \<times> 'v jsval) list"

text \<open>
  \<open>onChange(setting, cb)\<close>: \<open>this._emitters[setting].event(cb)\<close>. For a name that has no
  emitter the property read gives \<open>undefined\<close> or an inherited value without an \<open>event\<close>
  function, and the call throws.
\<close>

definition onChange :: "string \<Rightarrow> nat \<Rightarrow> 'v reader \<Rightarrow> exn + 'v reader" where
  "onChange setting cb r =
     (if setting \<in> set emitters then Inr (r\<lparr>listeners := listeners r @ [(setting, cb)]\<rparr>)
      else Inl (TypeError ''emitter.event is not a function''))"

text \<open>\<open>em.fire(v)\<close> on the emitter of a setting calls its listeners in registration order.\<close>

definition calls :: "string \<Rightarrow> 'v jsval \<Rightarrow> (string \<times> nat) list \<Rightarrow> (string \<times> nat \<times> 'v jsval) list" where
  "calls setting v ls = map (\<lambda>l. (setting, snd l, v)) (filter (\<lambda>l. fst l = setting) ls)"

definition fire :: "string \<Rightarrow> 'v jsval \<Rightarrow> 'v reader \<Rightarrow> 'v reader" where
  "fire setting v r = r\<lparr>invoked := invoked r @ calls setting v (listeners r)\<rparr>"

text \<open>
  The loop of \<open>updatePartial\<close> over \<open>Object.getOwnPropertyNames(newData)\<close>, from the list of
  names still to visit and the \<open>keys\<close> pushed so far. \<open>cmp\<close> is \<open>util.compare\<close>. When the
  property read \<open>this._emitters[key]\<close> finds an inherited value, \<open>em.fire\<close> is not a function.
\<close>

fun update_loop ::
  "('v jsval \<Rightarrow> 'v jsval \<Rightarrow> Ordering) \<Rightarrow> bool \<Rightarrow> 'v js_object \<Rightarrow> 'v js_object \<Rightarrow> string list \<Rightarrow>
   string list \<Rightarrow> 'v reader \<Rightarrow> (exn + string list) \<times> 'v reader" where
  "update_loop cmp fireEvent old_values newData [] keys r = (Inr keys, r)"
| "update_loop cmp fireEvent old_values newData (key # rest) keys r =
     (if \<not> in_emitters key then update_loop cmp fireEvent old_values newData rest keys r
      else if cmp (get_prop (configData r) key) (get_prop old_values key) \<noteq> Equivalent then
        (if fireEvent \<and> get_prop newData key \<noteq> Undefined then
           (if key \<in> set emitters
            then update_loop cmp fireEvent old_values newData rest (keys @ [key])
                   (fire key (get_prop newData key) r)
            else (Inl (TypeError ''em.fire is not a function''), r))
         else update_loop cmp fireEvent old_values newData rest (keys @ [key]) r)
      else update_loop cmp fireEvent old_values newData rest keys r)"

definition updatePartial ::
  "('v jsval \<Rightarrow> 'v jsval \<Rightarrow> Ordering) \<Rightarrow> 'v js_object \<Rightarrow> bool \<Rightarrow> 'v reader \<Rightarrow>
   (exn + string list) \<times> 'v reader" where
  "updatePartial cmp newData fireEvent r =
     update_loop cmp fireEvent (configData r) newData (map fst newData) []
       (r\<lparr>configData := object_assign (configData r) newData\<rparr>)"

text \<open>\<open>update(newData)\<close> is \<open>updatePartial(newData)\<close> with \<open>fireEvent\<close> left at its default.\<close>

definition update ::
  "('v jsval \<Rightarrow> 'v jsval \<Rightarrow> Ordering) \<Rightarrow> 'v js_object \<Rightarrow> 'v reader \<Rightarrow> (exn + string list) \<times> 'v reader" where
  "update cmp newData r = updatePartial cmp newData True r"

section \<open>Concrete inputs\<close>

text \<open>
  A server that answers every request: two cache entries, and a code model with one
  configuration \<open>Debug\<close> of two projects. The executable \<open>app\<close> is listed by both projects
  with the same artifact; the first project declares an install rule.
\<close>

definition fixture_app :: ServerCodeModelTarget where
  "fixture_app =
     \<lparr>st_name = ''app'', st_type = ''EXECUTABLE'', st_sourceDirectory = Some ''/src'',
      st_fullName = Some ''app'', st_artifacts = Some [''/build/app''], st_sysroot = None,
      st_linkLanguageFlags = Some ''-lm'',
      st_fileGroups =
        Some [\<lparr>sg_sources = [''main.c''], sg_language = Some ''C'', sg_includePath = None,
               sg_defines = None, sg_isGenerated = False, sg_compileFlags = Some ''-O2''\<rparr>,
              \<lparr>sg_sources = [''gen.c''], sg_language = Some ''C'', sg_includePath = None,
               sg_defines = None, sg_isGenerated = True, sg_compileFlags = None\<rparr>]\<rparr>"

definition fixture_docs :: ServerCodeModelTarget where
  "fixture_docs =
     \<lparr>st_name = ''docs'', st_type = ''UTILITY'', st_sourceDirectory = Some ''/src'',
      st_fullName = None, st_artifacts = None, st_sysroot = None,
      st_linkLanguageFlags = None,
      st_fileGroups =
        Some [\<lparr>sg_sources = [''docs.txt''], sg_language = None, sg_includePath = None,
               sg_defines = None, sg_isGenerated = False, sg_compileFlags = None\<rparr>]\<rparr>"

definition fixture_codemodel :: ServerCodeModelContent where
  "fixture_codemodel =
     \<lparr>sm_configurations =
        [\<lparr>sc_name = ''Debug'',
          sc_projects =
            [\<lparr>sp_name = ''demo'', sp_sourceDirectory = ''/src'', sp_hasInstallRule = Some True,
              sp_targets = [fixture_app, fixture_docs]\<rparr>,
             \<lparr>sp_name = ''sub'', sp_sourceDirectory = ''/src/sub'', sp_hasInstallRule = None,
              sp_targets = [fixture_app]\<rparr>]\<rparr>]\<rparr>"

definition fixture_cache :: "raw_entry list" where
  "fixture_cache =
     [\<lparr>re_key = ''FOO'', re_properties = \<lparr>ADVANCED = None, HELPSTRING = Some ''''\<rparr>,
       re_type = ''STRING'', re_value = ''1''\<rparr>,
      \<lparr>re_key = ''CMAKE_GENERATOR'',
       re_properties = \<lparr>ADVANCED = Some ''1'', HELPSTRING = Some ''''\<rparr>,
       re_type = ''INTERNAL'', re_value = ''Ninja''\<rparr>]"

definition fixture_server :: server where
  "fixture_server =
     \<lparr>sv_start = None,
      sv_getGlobalSettings = Inr \<lparr>gs_generator = ''Ninja''\<rparr>,
      sv_configure = (\<lambda>args. None),
      sv_compute = None,
      sv_cmakeInputs = Inr [''/src/CMakeLists.txt''],
      sv_getCMakeCacheContent = Inr fixture_cache,
      sv_codemodel = Inr (Some fixture_codemodel)\<rparr>"

text \<open>A file system with the one build-definition file, and the same after the file was touched.\<close>

definition fixture_fs :: filesystem where
  "fixture_fs = (\<lambda>p. if p = ''/src/CMakeLists.txt'' then Some 1 else None)"

definition touched_fs :: filesystem where
  "touched_fs = (\<lambda>p. if p = ''/src/CMakeLists.txt'' then Some 2 else None)"

definition fixture_base :: "string \<Rightarrow> base" where
  "fixture_base buildType =
     \<lparr>generator = Some ''Ninja'', currentBuildType = buildType, allTargetName = ''all''\<rparr>"

text \<open>The driver after one successful \<open>doConfigure\<close> against the fixture server.\<close>

definition configured :: "string \<Rightarrow> driver" where
  "configured buildType =
     snd (doConfigure fixture_server fixture_fs [''-DFOO=1''] False (new_driver (fixture_base buildType)))"

text \<open>
  The same server when the configure request is answered by a structured error, when the
  connection is lost during the compute request, and when no client can be started.
\<close>

definition rejecting_server :: server where
  "rejecting_server = fixture_server\<lparr>sv_configure := (\<lambda>args. Some (ServerError ''CMake Error''))\<rparr>"

definition disconnecting_server :: server where
  "disconnecting_server = fixture_server\<lparr>sv_compute := Some (Error ''connection lost'')\<rparr>"

definition unstartable_server :: server where
  "unstartable_server = fixture_server\<lparr>sv_start := Some (Error ''spawn cmake ENOENT'')\<rparr>"

text \<open>
  Mutation callbacks: one that changes nothing, one that selects another generator, and one
  that leaves the driver without a generator.
\<close>

definition keep_kit :: "base \<Rightarrow> exn option \<times> base" where
  "keep_kit b = (None, b)"

definition select_makefiles :: "base \<Rightarrow> exn option \<times> base" where
  "select_makefiles b = (None, b\<lparr>generator := Some ''Unix Makefiles''\<rparr>)"

definition drop_generator :: "base \<Rightarrow> exn option \<times> base" where
  "drop_generator b = (None, b\<lparr>generator := None\<rparr>)"

text \<open>A new driver whose first kit change met a server that could not be started.\<close>

definition stranded :: driver where
  "stranded = snd (doSetKit unstartable_server keep_kit (new_driver (fixture_base ''Debug'')))"

text \<open>
  A reader over numeric settings, with a comparison that orders two defined numbers and
  finds everything else equivalent, and new data that changes \<open>generator\<close> and the
  additional property \<open>extra\<close> and repeats \<open>buildDirectory\<close>.
\<close>

definition compare_numbers :: "nat jsval \<Rightarrow> nat jsval \<Rightarrow> Ordering" where
  "compare_numbers a b =
     (case (a, b) of
        (Defined x, Defined y) \<Rightarrow> if x < y then Less else if y < x then Greater else Equivalent
      | _ \<Rightarrow> Equivalent)"

definition fixture_reader :: "nat reader" where
  "fixture_reader =
     \<lparr>configData = [(''generator'', Defined 0), (''buildDirectory'', Defined 5), (''extra'', Defined 0)],
      listeners = [(''generator'', 7), (''environment'', 8), (''generator'', 9)],
      invoked = []\<rparr>"

definition fixture_newData :: "nat js_object" where
  "fixture_newData =
     [(''generator'', Defined 1), (''buildDirectory'', Defined 5), (''extra'', Defined 1)]"

section \<open>Evaluation of the concrete inputs\<close>

lemma fixture_base_simps:
  "generator (fixture_base b) = Some ''Ninja''"
  "currentBuildType (fixture_base b) = b"
  "allTargetName (fixture_base b) = ''all''"
  by (simp_all add: fixture_base_def)

lemma configured_result:
  "fst (doConfigure fixture_server fixture_fs [''-DFOO=1''] False (new_driver (fixture_base buildType)))
     = Inr 0"
  by (simp add: doConfigure_def getClient_def startNewClient_def settled_def
      refreshPostConfigure_def new_driver_def fixture_server_def fixture_base_def)

lemma configured_state:
  "configured buildType =
     \<lparr>cmsClient = Inr (Some 0), clientChangeInProgress = None, globalSettings = None,
      cacheEntries = fst (rebuild_cache fixture_cache),
      cmakeInputFileSet = \<lparr>inputFiles = [\<lparr>filePath = ''/src/CMakeLists.txt'', mtime = Some 1\<rparr>]\<rparr>,
      codeModel = convertServerCodeModel (Some fixture_codemodel),
      hadConfigurationChanged = False, base = fixture_base buildType,
      diagnostics = snd (rebuild_cache fixture_cache),
      codeModelChanged = [convertServerCodeModel (Some fixture_codemodel)],
      messageListeners = 0, started = 1, live = [0], cleaned = 0\<rparr>"
  by (simp add: configured_def doConfigure_def getClient_def startNewClient_def settled_def
      refreshPostConfigure_def new_driver_def fixture_server_def fixture_base_def create_def
      fixture_fs_def)

lemma fixture_converted:
  "convertServerCodeModel (Some fixture_codemodel) =
     Some \<lparr>m_configurations =
        [\<lparr>c_name = ''Debug'',
          c_projects =
            [\<lparr>p_name = ''demo'', p_sourceDirectory = ''/src'', p_hasInstallRule = Some True,
              p_targets = [convertTarget fixture_app, convertTarget fixture_docs]\<rparr>,
             \<lparr>p_name = ''sub'', p_sourceDirectory = ''/src/sub'', p_hasInstallRule = None,
              p_targets = [convertTarget fixture_app]\<rparr>]\<rparr>]\<rparr>"
  by (simp add: convertServerCodeModel_def fixture_codemodel_def convertConfiguration_def
      convertProject_def)

lemma fixture_rich:
  "richTarget id (convertTarget fixture_app) =
     \<lparr>rt_type = ''rich'', rt_name = ''app'', rt_filepath = ''/build/app'',
      rt_targetType = ''EXECUTABLE''\<rparr>"
  "richTarget id (convertTarget fixture_docs) =
     \<lparr>rt_type = ''rich'', rt_name = ''docs'', rt_filepath = ''Utility target'',
      rt_targetType = ''UTILITY''\<rparr>"
  by (simp_all add: richTarget_def convertTarget_def fixture_app_def fixture_docs_def)

lemma configured_targets:
  "targets id (configured ''Debug'') =
     [buildAllTarget ''all'', installTarget,
      \<lparr>rt_type = ''rich'', rt_name = ''app'', rt_filepath = ''/build/app'',
       rt_targetType = ''EXECUTABLE''\<rparr>,
      \<lparr>rt_type = ''rich'', rt_name = ''docs'', rt_filepath = ''Utility target'',
       rt_targetType = ''UTILITY''\<rparr>,
      \<lparr>rt_type = ''rich'', rt_name = ''app'', rt_filepath = ''/build/app'',
       rt_targetType = ''EXECUTABLE''\<rparr>]"
  by (simp add: targets_def targets_of_def configured_state fixture_converted fixture_base_simps
      declaresInstallRule_def fixture_rich)

lemma configured_uniqueTargets:
  "uniqueTargets id (configured ''Debug'') =
     [buildAllTarget ''all'', installTarget,
      \<lparr>rt_type = ''rich'', rt_name = ''app'', rt_filepath = ''/build/app'',
       rt_targetType = ''EXECUTABLE''\<rparr>,
      \<lparr>rt_type = ''rich'', rt_name = ''docs'', rt_filepath = ''Utility target'',
       rt_targetType = ''UTILITY''\<rparr>]"
  by (simp add: uniqueTargets_def configured_targets targetReducer_def buildAllTarget_def
      installTarget_def)

lemma fixture_cache_rebuilt:
  "rebuild_cache fixture_cache =
     ([(''FOO'', \<lparr>e_key = ''FOO'', e_value = ''1'', e_type = Member String,
                 e_docs = Some '''', e_advanced = False\<rparr>),
       (''CMAKE_GENERATOR'', \<lparr>e_key = ''CMAKE_GENERATOR'', e_value = ''Ninja'',
                 e_type = Member Internal, e_docs = Some '''', e_advanced = True\<rparr>)],
      [])"
  by (simp add: rebuild_cache_def fixture_cache_def cache_reducer_def entry_map_get_def
      entry_map_def)

text \<open>
  The end-to-end scenario of the specification runs as described: the configure returns 0,
  the cache holds \<open>FOO\<close> with the value 1, the unique targets hold \<open>app\<close> and the "build all"
  meta-target, and no reconfigure is needed right after.
\<close>

lemma end_to_end_scenario:
  "fst (doConfigure fixture_server fixture_fs [''-DFOO=1''] False
          (new_driver (fixture_base ''Debug''))) = Inr 0
   \<and> map_option e_value (map_of (cacheEntries (configured ''Debug'')) ''FOO'') = Some ''1''
   \<and> \<lparr>rt_type = ''rich'', rt_name = ''app'', rt_filepath = ''/build/app'',
       rt_targetType = ''EXECUTABLE''\<rparr> \<in> set (uniqueTargets id (configured ''Debug''))
   \<and> buildAllTarget ''all'' \<in> set (uniqueTargets id (configured ''Debug''))
   \<and> \<not> checkNeedsReconfigure fixture_fs (configured ''Debug'')"
proof -
  have "map_option e_value (map_of (cacheEntries (configured ''Debug'')) ''FOO'') = Some ''1''"
    by (simp add: configured_state fixture_cache_rebuilt)
  moreover have "\<not> checkNeedsReconfigure fixture_fs (configured ''Debug'')"
    by (simp add: configured_state checkNeedsReconfigure_def checkOutOfDate_def fixture_fs_def)
  ultimately show ?thesis
    by (simp add: configured_result configured_uniqueTargets)
qed

section \<open>The reconfigure check\<close>

text \<open>
  Claim C1. For every driver state, \<open>checkNeedsReconfigure\<close> returns true if and only if the
  "configuration changed via settings" flag is set, or the recorded input file set has zero
  input files, or the input file set's \<open>checkOutOfDate\<close> returns true. Nothing else
  influences the result; in the first two cases the result is true whatever the file system
  holds, so the dirty check is only consulted when both fail.
\<close>

theorem C1_checkNeedsReconfigure_disjunction:
  "checkNeedsReconfigure fs d =
     (hadConfigurationChanged d \<or> length (inputFiles (cmakeInputFileSet d)) = 0
      \<or> checkOutOfDate fs (cmakeInputFileSet d))
   \<and> (hadConfigurationChanged d \<or> length (inputFiles (cmakeInputFileSet d)) = 0
        \<longrightarrow> checkNeedsReconfigure fs d \<and> checkNeedsReconfigure fs' d)"
  by (simp add: checkNeedsReconfigure_def)

theorem C1_witness:
  "checkNeedsReconfigure fixture_fs (new_driver (fixture_base ''Debug''))
   \<and> checkNeedsReconfigure fixture_fs
        ((configured ''Debug'')\<lparr>cmakeInputFileSet := createEmpty\<rparr>)
   \<and> \<not> checkNeedsReconfigure fixture_fs (configured ''Debug'')
   \<and> checkNeedsReconfigure touched_fs (configured ''Debug'')"
  using C1_checkNeedsReconfigure_disjunction [of fixture_fs "new_driver (fixture_base ''Debug'')" fixture_fs]
        C1_checkNeedsReconfigure_disjunction
          [of fixture_fs "(configured ''Debug'')\<lparr>cmakeInputFileSet := createEmpty\<rparr>" fixture_fs]
        C1_checkNeedsReconfigure_disjunction [of fixture_fs "configured ''Debug''" fixture_fs]
        C1_checkNeedsReconfigure_disjunction [of touched_fs "configured ''Debug''" fixture_fs]
  by (simp add: new_driver_def configured_state createEmpty_def checkOutOfDate_def
      fixture_fs_def touched_fs_def)

section \<open>The rebuilt cache\<close>

lemma map_set_keys: "fst ` set (map_set m k v) = insert k (fst ` set m)"
  by (induction m k v rule: map_set.induct) auto

lemma map_set_distinct: "distinct (map fst m) \<Longrightarrow> distinct (map fst (map_set m k v))"
proof (induction m k v rule: map_set.induct)
  case (1 k v)
  then show ?case by simp
next
  case (2 k' v' m k v)
  have "k' \<noteq> k \<Longrightarrow> k' \<notin> fst ` set (map_set m k v)"
    using 2(2) by (simp add: map_set_keys)
  with 2 show ?case by auto
qed

lemma set_map_set: "set (map_set m k v) \<subseteq> insert (k, v) (set m)"
  by (induction m k v rule: map_set.induct) auto

lemma cache_reducer_distinct:
  "distinct (map fst (fst st)) \<Longrightarrow> distinct (map fst (fst (cache_reducer st el)))"
  by (cases st) (auto simp: cache_reducer_def map_set_distinct split: option.splits)

lemma foldl_cache_reducer_distinct:
  "distinct (map fst (fst st)) \<Longrightarrow> distinct (map fst (fst (foldl cache_reducer st raw)))"
  by (induction raw arbitrary: st) (auto simp: cache_reducer_distinct)

text \<open>Each key appears at most once in the rebuilt map.\<close>

lemma rebuild_cache_distinct: "distinct (map fst (fst (rebuild_cache raw)))"
  unfolding rebuild_cache_def by (rule foldl_cache_reducer_distinct) simp

lemma foldl_cache_reducer_log:
  "snd (foldl cache_reducer st raw) =
     snd st @ map UnknownCacheEntryType (filter (\<lambda>t. entry_map_get t = None) (map re_type raw))"
  by (induction raw arbitrary: st) (auto simp: cache_reducer_def split: option.splits prod.splits)

text \<open>One diagnostic is logged for each raw entry whose type reads as \<open>undefined\<close>, in order.\<close>

lemma rebuild_cache_log:
  "snd (rebuild_cache raw) =
     map UnknownCacheEntryType (filter (\<lambda>t. entry_map_get t = None) (map re_type raw))"
  by (simp add: rebuild_cache_def foldl_cache_reducer_log)

lemma foldl_cache_reducer_keys:
  "fst ` set (fst (foldl cache_reducer st raw)) =
     fst ` set (fst st) \<union> re_key ` {el \<in> set raw. entry_map_get (re_type el) \<noteq> None}"
  by (induction raw arbitrary: st)
     (auto simp: cache_reducer_def map_set_keys split: option.splits prod.splits)

text \<open>The keys of the rebuilt map are the keys of the raw entries whose type reads as a value.\<close>

lemma rebuild_cache_keys:
  "fst ` set (fst (rebuild_cache raw)) =
     re_key ` {el \<in> set raw. entry_map_get (re_type el) \<noteq> None}"
  by (simp add: rebuild_cache_def foldl_cache_reducer_keys)

lemma foldl_cache_reducer_types:
  assumes "\<forall>el \<in> set raw. re_type el \<notin> set object_prototype_keys"
      and "\<forall>ke \<in> set (fst st). \<exists>t. e_type (snd ke) = Member t"
    shows "\<forall>ke \<in> set (fst (foldl cache_reducer st raw)). \<exists>t. e_type (snd ke) = Member t"
  using assms
proof (induction raw arbitrary: st)
  case Nil
  then show ?case by simp
next
  case (Cons el raw)
  have "\<forall>ke \<in> set (fst (cache_reducer st el)). \<exists>t. e_type (snd ke) = Member t"
  proof (cases "entry_map_get (re_type el)")
    case None
    then show ?thesis using Cons.prems(2) by (cases st) (simp add: cache_reducer_def)
  next
    case (Some ty)
    from Cons.prems(1) have "re_type el \<notin> set object_prototype_keys" by simp
    with Some obtain t where ty: "ty = Member t"
      by (auto simp: entry_map_get_def split: option.splits)
    show ?thesis
      using Cons.prems(2) Some ty set_map_set
      by (cases st) (fastforce simp: cache_reducer_def)
  qed
  moreover have "\<forall>el \<in> set raw. re_type el \<notin> set object_prototype_keys"
    using Cons.prems(1) by simp
  ultimately show ?case using Cons.IH by simp
qed

text \<open>
  As long as no type tag is the name of a property of \<open>Object.prototype\<close>, every entry of the
  rebuilt map has a type of the closed set, and a tag is read as \<open>undefined\<close> exactly when it
  is not one of the seven recognized strings.
\<close>

lemma rebuild_cache_closed_types:
  "\<forall>el \<in> set raw. re_type el \<notin> set object_prototype_keys \<Longrightarrow>
   \<forall>ke \<in> set (fst (rebuild_cache raw)). \<exists>t. e_type (snd ke) = Member t"
  unfolding rebuild_cache_def by (rule foldl_cache_reducer_types) simp_all

lemma entry_map_get_undefined:
  "t \<notin> set object_prototype_keys \<Longrightarrow>
   entry_map_get t = None \<longleftrightarrow>
     t \<notin> {''BOOL'', ''STRING'', ''PATH'', ''FILEPATH'', ''INTERNAL'', ''UNINITIALIZED'', ''STATIC''}"
  by (simp add: entry_map_get_def entry_map_def)

text \<open>
  Claim C4. The rebuilt cache map contains only entries whose type is one of the closed set,
  each key appears at most once, and every raw entry whose type tag is not one of the seven
  recognized strings is excluded from the map with a diagnostic logged, never coerced to a
  value. The code does not do this for a tag that names a property every object inherits:
  the raw entry \<open>BAR\<close> below has the type tag \<open>constructor\<close>, which is none of the seven
  strings; \<open>entry_map[el.type]\<close> is then the inherited function, not \<open>undefined\<close>, so the
  entry is stored with that value as its type and nothing is logged.
\<close>

theorem C4_inherited_type_tag_is_stored:
  "rebuild_cache
     [\<lparr>re_key = ''FOO'', re_properties = \<lparr>ADVANCED = None, HELPSTRING = Some ''a flag''\<rparr>,
       re_type = ''STRING'', re_value = ''1''\<rparr>,
      \<lparr>re_key = ''BAR'', re_properties = \<lparr>ADVANCED = None, HELPSTRING = Some ''odd''\<rparr>,
       re_type = ''constructor'', re_value = ''2''\<rparr>] =
   ([(''FOO'', \<lparr>e_key = ''FOO'', e_value = ''1'', e_type = Member String,
               e_docs = Some ''a flag'', e_advanced = False\<rparr>),
     (''BAR'', \<lparr>e_key = ''BAR'', e_value = ''2'', e_type = Inherited ''constructor'',
               e_docs = Some ''odd'', e_advanced = False\<rparr>)],
    [])"
  by (simp add: rebuild_cache_def cache_reducer_def entry_map_get_def entry_map_def
      object_prototype_keys_def)

section \<open>The translation of the code model\<close>

lemma convertFileGroup_fragments:
  "g_compileCommandFragments (convertFileGroup lf grp) =
     (if truthy (sg_compileFlags grp) then [the (sg_compileFlags grp)]
      else if truthy lf then [the lf] else [])"
  by (simp add: convertFileGroup_def)

text \<open>
  Claim C5. For every translated file group in the code model: if the server's group has
  per-group compile flags, \<open>compileCommandFragments\<close> is exactly the one-element list
  containing those flags; otherwise, if the enclosing target has link-language flags, it is
  exactly the one-element list containing the target's link-language flags; otherwise it is
  the empty list. A group or target has flags when the field is defined and not the empty
  string. The translated target at position \<open>(i, j, k)\<close> has one file group for each file
  group of the server's target at that position, in order, and none when the server's target
  has no \<open>fileGroups\<close>.
\<close>

theorem C5_compile_command_fragments:
  assumes conv: "convertServerCodeModel (Some scm) = Some cm"
      and i: "i < length (sm_configurations scm)"
      and j: "j < length (sc_projects (sm_configurations scm ! i))"
      and k: "k < length (sp_targets (sc_projects (sm_configurations scm ! i) ! j))"
      and target: "target = sp_targets (sc_projects (sm_configurations scm ! i) ! j) ! k"
      and newTarget: "newTarget = p_targets (c_projects (m_configurations cm ! i) ! j) ! k"
    shows "(st_fileGroups target = None \<longrightarrow> t_fileGroups newTarget = []) \<and>
           (\<forall>groups. st_fileGroups target = Some groups \<longrightarrow>
              length (t_fileGroups newTarget) = length groups \<and>
              (\<forall>l < length groups.
                 (\<forall>flags. sg_compileFlags (groups ! l) = Some flags \<and> flags \<noteq> [] \<longrightarrow>
                    g_compileCommandFragments (t_fileGroups newTarget ! l) = [flags]) \<and>
                 (\<forall>flags. (sg_compileFlags (groups ! l) = None \<or> sg_compileFlags (groups ! l) = Some [])
                      \<and> st_linkLanguageFlags target = Some flags \<and> flags \<noteq> [] \<longrightarrow>
                    g_compileCommandFragments (t_fileGroups newTarget ! l) = [flags]) \<and>
                 ((sg_compileFlags (groups ! l) = None \<or> sg_compileFlags (groups ! l) = Some [])
                      \<and> (st_linkLanguageFlags target = None \<or> st_linkLanguageFlags target = Some [])
                    \<longrightarrow> g_compileCommandFragments (t_fileGroups newTarget ! l) = [])))"
proof -
  from conv have cm: "cm = \<lparr>m_configurations = map convertConfiguration (sm_configurations scm)\<rparr>"
    by (simp add: convertServerCodeModel_def)
  have nt: "newTarget = convertTarget target"
    using i j k by (simp add: cm newTarget target convertConfiguration_def convertProject_def)
  show ?thesis
    by (auto simp: nt convertTarget_def convertFileGroup_fragments truthy_def split: option.splits)
qed

theorem C5_witness:
  "convertServerCodeModel (Some fixture_codemodel) \<noteq> None
   \<and> map g_compileCommandFragments (t_fileGroups (convertTarget fixture_app)) = [[''-O2''], [''-lm'']]
   \<and> map g_compileCommandFragments (t_fileGroups (convertTarget fixture_docs)) = [[]]"
proof -
  let ?cm = "\<lparr>m_configurations = map convertConfiguration (sm_configurations fixture_codemodel)\<rparr>"
  have conv: "convertServerCodeModel (Some fixture_codemodel) = Some ?cm"
    by (simp add: convertServerCodeModel_def)
  have i: "0 < length (sm_configurations fixture_codemodel)"
    by (simp add: fixture_codemodel_def)
  have j: "0 < length (sc_projects (sm_configurations fixture_codemodel ! 0))"
    by (simp add: fixture_codemodel_def)
  have k0: "0 < length (sp_targets (sc_projects (sm_configurations fixture_codemodel ! 0) ! 0))"
    and k1: "1 < length (sp_targets (sc_projects (sm_configurations fixture_codemodel ! 0) ! 0))"
    by (simp_all add: fixture_codemodel_def)
  have t0: "fixture_app = sp_targets (sc_projects (sm_configurations fixture_codemodel ! 0) ! 0) ! 0"
    and t1: "fixture_docs = sp_targets (sc_projects (sm_configurations fixture_codemodel ! 0) ! 0) ! 1"
    by (simp_all add: fixture_codemodel_def)
  have n0: "convertTarget fixture_app = p_targets (c_projects (m_configurations ?cm ! 0) ! 0) ! 0"
    and n1: "convertTarget fixture_docs = p_targets (c_projects (m_configurations ?cm ! 0) ! 0) ! 1"
    by (simp_all add: fixture_codemodel_def convertConfiguration_def convertProject_def)
  have g0: "st_fileGroups fixture_app \<noteq> None" "length (the (st_fileGroups fixture_app)) = 2"
    and g1: "st_fileGroups fixture_docs \<noteq> None" "length (the (st_fileGroups fixture_docs)) = 1"
    by (simp_all add: fixture_app_def fixture_docs_def)
  from C5_compile_command_fragments [OF conv i j k0 t0 n0]
       C5_compile_command_fragments [OF conv i j k1 t1 n1]
  show ?thesis
    by (simp add: conv fixture_app_def fixture_docs_def convertTarget_def convertFileGroup_def
        truthy_def)
qed

section \<open>The targets views\<close>

lemma foldl_concat: "foldl (\<lambda>acc x. acc @ f x) init xs = init @ concat (map f xs)"
  by (induction xs arbitrary: init) auto

lemma list_ex_declaresInstallRule:
  "list_ex declaresInstallRule ps \<longleftrightarrow> (\<exists>p \<in> set ps. p_hasInstallRule p = Some True)"
  by (auto simp: list_ex_iff declaresInstallRule_def split: option.splits)

text \<open>
  Claim C6, as the code has it. When the code model is null, \<open>targets\<close> is the empty list.
  When the code model is non-null but holds no configuration named like the current build
  type, \<open>targets\<close> is the empty list as well. Otherwise \<open>targets\<close> starts with the synthetic
  "build all" meta-target (also when every project's target list is empty), followed by the
  "install" meta-target exactly when some project of that configuration declares an install
  rule, followed by the targets of the configuration's projects in order.
\<close>

theorem C6_targets_meta:
  "(codeModel d = None \<longrightarrow> targets pn d = []) \<and>
   (\<forall>cm. codeModel d = Some cm
        \<and> find (\<lambda>conf. c_name conf = currentBuildType (base d)) (m_configurations cm) = None
      \<longrightarrow> targets pn d = []) \<and>
   (\<forall>cm build_config. codeModel d = Some cm
        \<and> find (\<lambda>conf. c_name conf = currentBuildType (base d)) (m_configurations cm)
            = Some build_config
      \<longrightarrow> targets pn d =
            [buildAllTarget (allTargetName (base d))]
            @ (if \<exists>project \<in> set (c_projects build_config). p_hasInstallRule project = Some True
               then [installTarget] else [])
            @ concat (map (\<lambda>project. map (richTarget pn) (p_targets project))
                        (c_projects build_config)))"
  by (simp add: targets_def targets_of_def foldl_concat list_ex_declaresInstallRule)

theorem C6_witness:
  "targets id (new_driver (fixture_base ''Debug'')) = []
   \<and> targets id (configured ''Release'') = []
   \<and> targets id (configured ''Debug'') =
       [buildAllTarget ''all'', installTarget,
        richTarget id (convertTarget fixture_app), richTarget id (convertTarget fixture_docs),
        richTarget id (convertTarget fixture_app)]
   \<and> targets id ((configured ''Debug'')
         \<lparr>codeModel := Some \<lparr>m_configurations = [\<lparr>c_name = ''Debug'', c_projects = []\<rparr>]\<rparr>\<rparr>)
       = [buildAllTarget ''all'']"
  using C6_targets_meta [of "new_driver (fixture_base ''Debug'')" id]
        C6_targets_meta [of "configured ''Release''" id]
        C6_targets_meta [of "configured ''Debug''" id]
        C6_targets_meta [of "(configured ''Debug'')
         \<lparr>codeModel := Some \<lparr>m_configurations = [\<lparr>c_name = ''Debug'', c_projects = []\<rparr>]\<rparr>\<rparr>" id]
  by (simp add: new_driver_def configured_state fixture_converted fixture_base_def)

text \<open>
  Claim C6 as stated fails: this driver has completed a configure (the call returned 0) and
  its code model is non-null, but the code model has no configuration for the current build
  type \<open>Release\<close>, and \<open>targets\<close> has no "build all" meta-target: it is empty.
\<close>

theorem C6_counterexample:
  "fst (doConfigure fixture_server fixture_fs [''-DFOO=1''] False
          (new_driver (fixture_base ''Release''))) = Inr 0
   \<and> codeModel (configured ''Release'') \<noteq> None
   \<and> buildAllTarget ''all'' \<notin> set (targets id (configured ''Release''))
   \<and> targets id (configured ''Release'') = []"
  by (simp add: configured_result configured_state fixture_converted targets_def targets_of_def
      fixture_base_simps)

lemma targetReducer_triple:
  "targetReducer acc t = (if triple t \<in> triple ` set acc then acc else acc @ [t])"
proof -
  have "find (\<lambda>t2. rt_name t = rt_name t2 \<and> rt_filepath t = rt_filepath t2
                      \<and> rt_targetType t = rt_targetType t2) acc = None
        \<longleftrightarrow> triple t \<notin> triple ` set acc"
    by (auto simp: find_None_iff triple_def)
  then show ?thesis
    by (auto simp: targetReducer_def split: option.splits)
qed

lemma unique_keys: "triple ` set (foldl targetReducer [] ts) = triple ` set ts"
  by (induction ts rule: rev_induct) (auto simp: targetReducer_triple)

lemma unique_distinct: "distinct (map triple (foldl targetReducer [] ts))"
  by (induction ts rule: rev_induct) (auto simp: targetReducer_triple)

lemma unique_first_occurrences:
  "foldl targetReducer [] ts =
     map (\<lambda>i. ts ! i) (filter (\<lambda>i. \<forall>j<i. triple (ts ! j) \<noteq> triple (ts ! i)) [0..<length ts])"
proof (induction ts rule: rev_induct)
  case Nil
  then show ?case by simp
next
  case (snoc t ts)
  let ?n = "length ts"
  let ?P = "\<lambda>xs i. \<forall>j<i. triple (xs ! j) \<noteq> triple (xs ! i)"
  have old: "filter (?P (ts @ [t])) [0..<?n] = filter (?P ts) [0..<?n]"
    by (rule filter_cong) (auto simp: nth_append)
  have oldmap: "map (\<lambda>i. (ts @ [t]) ! i) (filter (?P ts) [0..<?n])
                  = map (\<lambda>i. ts ! i) (filter (?P ts) [0..<?n])"
    by (rule map_cong) (auto simp: nth_append)
  have new: "?P (ts @ [t]) ?n \<longleftrightarrow> triple t \<notin> triple ` set ts"
  proof
    assume p: "?P (ts @ [t]) ?n"
    show "triple t \<notin> triple ` set ts"
    proof
      assume "triple t \<in> triple ` set ts"
      then obtain j where "j < ?n" "triple (ts ! j) = triple t"
        by (auto simp: in_set_conv_nth)
      with p show False by (auto simp: nth_append)
    qed
  next
    assume "triple t \<notin> triple ` set ts"
    then have "\<And>j. j < ?n \<Longrightarrow> triple (ts ! j) \<noteq> triple t"
      by (metis nth_mem imageI)
    then show "?P (ts @ [t]) ?n"
      by (simp add: nth_append)
  qed
  have "foldl targetReducer [] (ts @ [t]) = targetReducer (foldl targetReducer [] ts) t"
    by simp
  also have "\<dots> = (if triple t \<in> triple ` set ts then foldl targetReducer [] ts
                    else foldl targetReducer [] ts @ [t])"
    by (simp only: targetReducer_triple unique_keys)
  also have "\<dots> = map (\<lambda>i. (ts @ [t]) ! i) (filter (?P (ts @ [t])) [0..<length (ts @ [t])])"
    using old oldmap new by (simp add: snoc.IH)
  finally show ?case .
qed

text \<open>
  Claim C7. For every code model, \<open>uniqueTargets\<close> contains exactly one entry for each
  distinct (name, filepath, targetType) triple occurring in the \<open>targets\<close> view, in order of
  first occurrence: no triple appears twice in the result, the triples of the result are
  the triples of \<open>targets\<close>, and the result is the list of those elements of \<open>targets\<close> that
  have no earlier element with the same triple, in the order of \<open>targets\<close>.
\<close>

theorem C7_uniqueTargets_first_occurrences:
  "distinct (map triple (uniqueTargets pn d))
   \<and> triple ` set (uniqueTargets pn d) = triple ` set (targets pn d)
   \<and> uniqueTargets pn d =
       map (\<lambda>i. targets pn d ! i)
         (filter (\<lambda>i. \<forall>j<i. triple (targets pn d ! j) \<noteq> triple (targets pn d ! i))
            [0..<length (targets pn d)])"
  unfolding uniqueTargets_def
  using unique_distinct unique_keys unique_first_occurrences by blast

theorem C7_witness:
  "distinct (map triple (uniqueTargets id (configured ''Debug'')))
   \<and> map triple (targets id (configured ''Debug'')) =
     [(''all'', ''A special target to build all available targets'', ''META''),
      (''install'', ''A special target to install all available targets'', ''META''),
      (''app'', ''/build/app'', ''EXECUTABLE''),
      (''docs'', ''Utility target'', ''UTILITY''),
      (''app'', ''/build/app'', ''EXECUTABLE'')]
   \<and> map triple (uniqueTargets id (configured ''Debug'')) =
     [(''all'', ''A special target to build all available targets'', ''META''),
      (''install'', ''A special target to install all available targets'', ''META''),
      (''app'', ''/build/app'', ''EXECUTABLE''),
      (''docs'', ''Utility target'', ''UTILITY'')]"
proof -
  from C7_uniqueTargets_first_occurrences [of id "configured ''Debug''"]
  have "distinct (map triple (uniqueTargets id (configured ''Debug'')))"
    by (rule conjunct1)
  then show ?thesis
    by (simp add: configured_targets configured_uniqueTargets triple_def buildAllTarget_def
        installTarget_def)
qed

section \<open>The driver's operations\<close>

text \<open>What starting and acquiring a client leave untouched.\<close>

lemma startNewClient_keeps:
  "cmsClient (snd (startNewClient sv d)) = cmsClient d"
  "clientChangeInProgress (snd (startNewClient sv d)) = clientChangeInProgress d"
  "globalSettings (snd (startNewClient sv d)) = globalSettings d"
  "cacheEntries (snd (startNewClient sv d)) = cacheEntries d"
  "cmakeInputFileSet (snd (startNewClient sv d)) = cmakeInputFileSet d"
  "codeModel (snd (startNewClient sv d)) = codeModel d"
  "hadConfigurationChanged (snd (startNewClient sv d)) = hadConfigurationChanged d"
  "base (snd (startNewClient sv d)) = base d"
  "diagnostics (snd (startNewClient sv d)) = diagnostics d"
  "codeModelChanged (snd (startNewClient sv d)) = codeModelChanged d"
  "messageListeners (snd (startNewClient sv d)) = messageListeners d"
  "cleaned (snd (startNewClient sv d)) = cleaned d"
  by (simp_all add: startNewClient_def split: option.splits)

lemma getClient_cases:
  "getClient sv d =
     (case cmsClient d of
        Inl e \<Rightarrow> (Inl e, d)
      | Inr (Some c) \<Rightarrow> (Inr c, d)
      | Inr None \<Rightarrow>
          (fst (startNewClient sv d),
           (snd (startNewClient sv d))\<lparr>cmsClient := settled (fst (startNewClient sv d))\<rparr>))"
  by (simp add: getClient_def Let_def settled_def split: sum.splits option.splits prod.splits)

lemma getClient_keeps:
  "clientChangeInProgress (snd (getClient sv d)) = clientChangeInProgress d"
  "globalSettings (snd (getClient sv d)) = globalSettings d"
  "cacheEntries (snd (getClient sv d)) = cacheEntries d"
  "cmakeInputFileSet (snd (getClient sv d)) = cmakeInputFileSet d"
  "codeModel (snd (getClient sv d)) = codeModel d"
  "hadConfigurationChanged (snd (getClient sv d)) = hadConfigurationChanged d"
  "base (snd (getClient sv d)) = base d"
  "diagnostics (snd (getClient sv d)) = diagnostics d"
  "codeModelChanged (snd (getClient sv d)) = codeModelChanged d"
  "messageListeners (snd (getClient sv d)) = messageListeners d"
  "cleaned (snd (getClient sv d)) = cleaned d"
  by (simp_all add: getClient_cases startNewClient_keeps split: sum.splits option.splits)

lemma refreshPostConfigure_keeps:
  "hadConfigurationChanged (snd (refreshPostConfigure sv fs d)) = hadConfigurationChanged d"
  "base (snd (refreshPostConfigure sv fs d)) = base d"
  "messageListeners (snd (refreshPostConfigure sv fs d)) = messageListeners d"
proof -
  obtain r d1 where g: "getClient sv d = (r, d1)"
    by (cases "getClient sv d")
  note k = getClient_keeps [of sv d, unfolded g, simplified]
  show "hadConfigurationChanged (snd (refreshPostConfigure sv fs d)) = hadConfigurationChanged d"
    by (simp add: refreshPostConfigure_def g k Let_def split: sum.splits)
  show "base (snd (refreshPostConfigure sv fs d)) = base d"
    by (simp add: refreshPostConfigure_def g k Let_def split: sum.splits)
  show "messageListeners (snd (refreshPostConfigure sv fs d)) = messageListeners d"
    by (simp add: refreshPostConfigure_def g k Let_def split: sum.splits)
qed

lemma listener_disposed:
  "d\<lparr>messageListeners := Suc (messageListeners d), hadConfigurationChanged := False,
     messageListeners := Suc (messageListeners d) - 1\<rparr> = d\<lparr>hadConfigurationChanged := False\<rparr>"
  by simp

lemma restartClient_keeps:
  "cmakeInputFileSet (snd (restartClient sv d)) = cmakeInputFileSet d"
  "base (snd (restartClient sv d)) = base d"
  "cleaned (snd (restartClient sv d)) = cleaned d"
  by (simp_all add: restartClient_def doRestartClient_def getClient_cases settled_def
      startNewClient_def shutdownAsync_def split: sum.splits option.splits prod.splits)

lemma restartClient_started:
  assumes "cmsClient d = Inr cur" and "generator (base d) \<noteq> None"
  shows "sv_start sv = Some e \<Longrightarrow>
           fst (restartClient sv d) = Inl e \<and> started (snd (restartClient sv d)) = started d
           \<and> cmsClient (snd (restartClient sv d)) = Inl e"
    and "sv_start sv = None \<Longrightarrow>
           started (snd (restartClient sv d)) = Suc (started d)
           \<and> cmsClient (snd (restartClient sv d)) = Inr (Some (started d))
           \<and> live (snd (restartClient sv d))
               = (case cur of None \<Rightarrow> live d | Some c \<Rightarrow> removeAll c (live d)) @ [started d]
           \<and> fst (restartClient sv d)
               = (case sv_getGlobalSettings sv of Inl e \<Rightarrow> Inl e | Inr gs \<Rightarrow> Inr ())"
  using assms
  by (auto simp: restartClient_def doRestartClient_def getClient_cases settled_def
      startNewClient_def shutdownAsync_def split: sum.splits option.splits)

text \<open>The fields of the concrete drivers.\<close>

lemma configured_fields:
  "cmsClient (configured b) = Inr (Some 0)"
  "clientChangeInProgress (configured b) = None"
  "started (configured b) = 1"
  "live (configured b) = [0]"
  "base (configured b) = fixture_base b"
  "diagnostics (configured b) = []"
  "hadConfigurationChanged (configured b) = False"
  "cmakeInputFileSet (configured b) =
     \<lparr>inputFiles = [\<lparr>filePath = ''/src/CMakeLists.txt'', mtime = Some 1\<rparr>]\<rparr>"
  by (simp_all add: configured_state rebuild_cache_log fixture_cache_def entry_map_get_def
      entry_map_def)

lemma stranded_fields:
  "cmsClient stranded = Inl (Error ''spawn cmake ENOENT'')"
  "clientChangeInProgress stranded = Some (Error ''spawn cmake ENOENT'')"
  "base stranded = fixture_base ''Debug''"
  "started stranded = 0"
  "live stranded = []"
  by (simp_all add: stranded_def doSetKit_def record_change_def setKitAndRestart_def Let_def
      new_driver_def keep_kit_def fixture_base_simps restartClient_def doRestartClient_def
      startNewClient_def getClient_cases settled_def unstartable_server_def fixture_server_def)

lemma getClient_acquired:
  "fst (getClient sv d) = Inr cl \<Longrightarrow> cmsClient (snd (getClient sv d)) = Inr (Some cl)"
  by (auto simp: getClient_cases settled_def split: sum.splits option.splits)

lemma getClient_held:
  "cmsClient d = Inr (Some cl) \<Longrightarrow> getClient sv d = (Inr cl, d)"
  by (simp add: getClient_cases)

text \<open>
  Claim C2. Take a \<open>doConfigure(args)\<close> call that sends its requests (\<open>showCommandOnly\<close> is
  not set). If the pending client change has failed or no client can be acquired, that
  failure propagates. Otherwise: if the configure or the compute request fails with a
  \<open>ServerError\<close>, \<open>doConfigure\<close> logs the diagnostic and returns 1 without throwing; if one of
  them fails with anything that is not a \<open>ServerError\<close>, the exception propagates to the
  caller; if both succeed, \<open>doConfigure\<close> performs the post-configure refresh: the input
  file set becomes the snapshot of the files the server reports as inputs, the cache becomes
  the map rebuilt from the server's cache reply (with its diagnostics logged), the code model
  becomes the translation of the server's code model and is published on
  \<open>onCodeModelChanged\<close>, and the call returns 0. A request of the refresh that the server
  answers with an error makes the call throw that error, with what the earlier replies
  recorded left in place.
\<close>

theorem C2_doConfigure_outcomes:
  "(\<forall>e. clientChangeInProgress d = Some e \<longrightarrow> fst (doConfigure sv fs args False d) = Inl e)
   \<and> (clientChangeInProgress d = None \<longrightarrow>
        (\<forall>e. fst (getClient sv d) = Inl e \<longrightarrow> fst (doConfigure sv fs args False d) = Inl e)
        \<and> (\<forall>cl. fst (getClient sv d) = Inr cl \<longrightarrow>
             (\<forall>msg. sv_configure sv args = Some (ServerError msg)
                     \<or> (sv_configure sv args = None \<and> sv_compute sv = Some (ServerError msg))
                \<longrightarrow> fst (doConfigure sv fs args False d) = Inr 1
                    \<and> diagnostics (snd (doConfigure sv fs args False d))
                        = diagnostics d @ [ConfigureError (ServerError msg)])
             \<and> (\<forall>e. (sv_configure sv args = Some e
                      \<or> (sv_configure sv args = None \<and> sv_compute sv = Some e))
                     \<and> (\<forall>msg. e \<noteq> ServerError msg)
                \<longrightarrow> fst (doConfigure sv fs args False d) = Inl e)
             \<and> (sv_configure sv args = None \<and> sv_compute sv = None \<longrightarrow>
                  (\<forall>e. sv_cmakeInputs sv = Inl e \<longrightarrow>
                     fst (doConfigure sv fs args False d) = Inl e)
                  \<and> (\<forall>cmake_inputs. sv_cmakeInputs sv = Inr cmake_inputs \<longrightarrow>
                       cmakeInputFileSet (snd (doConfigure sv fs args False d))
                         = create fs cmake_inputs
                       \<and> (\<forall>e. sv_getCMakeCacheContent sv = Inl e \<longrightarrow>
                            fst (doConfigure sv fs args False d) = Inl e)
                       \<and> (\<forall>clcache. sv_getCMakeCacheContent sv = Inr clcache \<longrightarrow>
                            cacheEntries (snd (doConfigure sv fs args False d))
                              = fst (rebuild_cache clcache)
                            \<and> diagnostics (snd (doConfigure sv fs args False d))
                              = diagnostics d @ snd (rebuild_cache clcache)
                            \<and> (\<forall>e. sv_codemodel sv = Inl e \<longrightarrow>
                                 fst (doConfigure sv fs args False d) = Inl e)
                            \<and> (\<forall>scm. sv_codemodel sv = Inr scm \<longrightarrow>
                                 fst (doConfigure sv fs args False d) = Inr 0
                                 \<and> codeModel (snd (doConfigure sv fs args False d))
                                   = convertServerCodeModel scm
                                 \<and> codeModelChanged (snd (doConfigure sv fs args False d))
                                   = codeModelChanged d @ [convertServerCodeModel scm]))))))"
proof -
  obtain r d1 where g: "getClient sv d = (r, d1)"
    by (cases "getClient sv d")
  have k: "diagnostics d1 = diagnostics d" "codeModelChanged d1 = codeModelChanged d"
    using getClient_keeps(8,9) [of sv d] g by simp_all
  have failed: "\<And>e d'. fst (configure_failed e d') =
      (case e of ServerError msg \<Rightarrow> Inr 1 | _ \<Rightarrow> Inl e)"
    "\<And>e d'. diagnostics (snd (configure_failed e d')) =
      (case e of ServerError msg \<Rightarrow> diagnostics d' @ [ConfigureError e] | _ \<Rightarrow> diagnostics d')"
    by (simp_all add: configure_failed_def split: exn.splits)
  have held: "getClient sv (d1\<lparr>hadConfigurationChanged := False\<rparr>)
                = (Inr cl, d1\<lparr>hadConfigurationChanged := False\<rparr>)"
    if "r = Inr cl" for cl
    using getClient_acquired [of sv d cl] g that by (simp add: getClient_held)
  show ?thesis
  proof (cases r)
    case (Inl e)
    then show ?thesis
      by (cases "clientChangeInProgress d") (simp_all add: doConfigure_def g)
  next
    case (Inr cl)
    note h = held [OF Inr]
    show ?thesis
      by (cases "clientChangeInProgress d"; cases "sv_configure sv args"; cases "sv_compute sv";
          cases "sv_cmakeInputs sv"; cases "sv_getCMakeCacheContent sv"; cases "sv_codemodel sv")
         (auto simp: doConfigure_def g Inr k Let_def failed listener_disposed
            refreshPostConfigure_def h split: exn.splits)
  qed
qed

theorem C2_witness:
  "fst (doConfigure rejecting_server fixture_fs [''-DFOO=1''] False (configured ''Debug'')) = Inr 1
   \<and> diagnostics (snd (doConfigure rejecting_server fixture_fs [''-DFOO=1''] False
                         (configured ''Debug'')))
       = [ConfigureError (ServerError ''CMake Error'')]
   \<and> fst (doConfigure disconnecting_server fixture_fs [''-DFOO=1''] False (configured ''Debug''))
       = Inl (Error ''connection lost'')
   \<and> fst (doConfigure fixture_server fixture_fs [''-DFOO=1''] False
            ((configured ''Debug'')\<lparr>clientChangeInProgress := Some NoGeneratorError\<rparr>))
       = Inl NoGeneratorError
   \<and> fst (doConfigure fixture_server touched_fs [''-DFOO=1''] False
            (new_driver (fixture_base ''Debug''))) = Inr 0
   \<and> cmakeInputFileSet (snd (doConfigure fixture_server touched_fs [''-DFOO=1''] False
                               (new_driver (fixture_base ''Debug''))))
       = \<lparr>inputFiles = [\<lparr>filePath = ''/src/CMakeLists.txt'', mtime = Some 2\<rparr>]\<rparr>
   \<and> map (\<lambda>ke. (fst ke, e_value (snd ke), e_type (snd ke)))
         (cacheEntries (snd (doConfigure fixture_server touched_fs [''-DFOO=1''] False
                               (new_driver (fixture_base ''Debug'')))))
       = [(''FOO'', ''1'', Member String), (''CMAKE_GENERATOR'', ''Ninja'', Member Internal)]
   \<and> diagnostics (snd (doConfigure fixture_server touched_fs [''-DFOO=1''] False
                         (new_driver (fixture_base ''Debug'')))) = []
   \<and> map_option (\<lambda>cm. map c_name (m_configurations cm))
         (codeModel (snd (doConfigure fixture_server touched_fs [''-DFOO=1''] False
                            (new_driver (fixture_base ''Debug'')))))
       = Some [''Debug'']
   \<and> codeModelChanged (snd (doConfigure fixture_server touched_fs [''-DFOO=1''] False
                              (new_driver (fixture_base ''Debug''))))
       = [convertServerCodeModel (Some fixture_codemodel)]"
proof -
  have client: "fst (getClient sv (configured ''Debug'')) = Inr 0" for sv
    by (simp add: getClient_cases configured_fields)
  from C2_doConfigure_outcomes [of "configured ''Debug''" rejecting_server fixture_fs "[''-DFOO=1'']"]
  have a: "fst (doConfigure rejecting_server fixture_fs [''-DFOO=1''] False (configured ''Debug''))
             = Inr 1
           \<and> diagnostics (snd (doConfigure rejecting_server fixture_fs [''-DFOO=1''] False
                                 (configured ''Debug'')))
             = [ConfigureError (ServerError ''CMake Error'')]"
    by (simp add: configured_fields client rejecting_server_def fixture_server_def)
  from C2_doConfigure_outcomes [of "configured ''Debug''" disconnecting_server fixture_fs "[''-DFOO=1'']"]
  have b: "fst (doConfigure disconnecting_server fixture_fs [''-DFOO=1''] False (configured ''Debug''))
             = Inl (Error ''connection lost'')"
    by (simp add: configured_fields client disconnecting_server_def fixture_server_def)
  from C2_doConfigure_outcomes
         [of "(configured ''Debug'')\<lparr>clientChangeInProgress := Some NoGeneratorError\<rparr>"
             fixture_server fixture_fs "[''-DFOO=1'']"]
  have c: "fst (doConfigure fixture_server fixture_fs [''-DFOO=1''] False
                  ((configured ''Debug'')\<lparr>clientChangeInProgress := Some NoGeneratorError\<rparr>))
             = Inl NoGeneratorError"
    by simp
  let ?d = "new_driver (fixture_base ''Debug'')"
  let ?R = "doConfigure fixture_server touched_fs [''-DFOO=1''] False ?d"
  have fresh: "clientChangeInProgress ?d = None" "diagnostics ?d = []" "codeModelChanged ?d = []"
    by (simp_all add: new_driver_def)
  have started: "fst (getClient fixture_server ?d) = Inr 0"
    by (simp add: getClient_cases startNewClient_def new_driver_def fixture_base_simps
        fixture_server_def)
  have replies: "sv_configure fixture_server [''-DFOO=1''] = None"
    "sv_compute fixture_server = None"
    "sv_cmakeInputs fixture_server = Inr [''/src/CMakeLists.txt'']"
    "sv_getCMakeCacheContent fixture_server = Inr fixture_cache"
    "sv_codemodel fixture_server = Inr (Some fixture_codemodel)"
    by (simp_all add: fixture_server_def)
  from C2_doConfigure_outcomes [of ?d fixture_server touched_fs "[''-DFOO=1'']"]
  have d: "fst ?R = Inr 0
           \<and> cmakeInputFileSet (snd ?R) = create touched_fs [''/src/CMakeLists.txt'']
           \<and> cacheEntries (snd ?R) = fst (rebuild_cache fixture_cache)
           \<and> diagnostics (snd ?R) = snd (rebuild_cache fixture_cache)
           \<and> codeModel (snd ?R) = convertServerCodeModel (Some fixture_codemodel)
           \<and> codeModelChanged (snd ?R) = [convertServerCodeModel (Some fixture_codemodel)]"
    by (simp add: fresh started replies)
  from a b c d show ?thesis
    by (simp add: create_def touched_fs_def fixture_cache_rebuilt fixture_converted)
qed

text \<open>
  Claim C9. \<open>doConfigure\<close> sets the configuration-changed flag to false before it sends the
  configure request: once the pending client change has settled and a client is acquired,
  the flag is false in the state the call leaves, whatever the server answers. So after a
  configure that fails with a \<open>ServerError\<close> (returning 1) the flag is false, the input file
  set, the cache and the code model are as before, and a subsequent
  \<open>checkNeedsReconfigure\<close> depends only on the input file set.
\<close>

theorem C9_flag_cleared_before_request:
  assumes pending: "clientChangeInProgress d = None"
      and client: "fst (getClient sv d) = Inr cl"
    shows "\<not> hadConfigurationChanged (snd (doConfigure sv fs args False d))
       \<and> (\<forall>msg. sv_configure sv args = Some (ServerError msg)
                 \<or> (sv_configure sv args = None \<and> sv_compute sv = Some (ServerError msg))
            \<longrightarrow> fst (doConfigure sv fs args False d) = Inr 1
                \<and> cmakeInputFileSet (snd (doConfigure sv fs args False d)) = cmakeInputFileSet d
                \<and> cacheEntries (snd (doConfigure sv fs args False d)) = cacheEntries d
                \<and> codeModel (snd (doConfigure sv fs args False d)) = codeModel d
                \<and> (\<forall>fs'. checkNeedsReconfigure fs' (snd (doConfigure sv fs args False d))
                          = (length (inputFiles (cmakeInputFileSet d)) = 0
                             \<or> checkOutOfDate fs' (cmakeInputFileSet d))))"
proof -
  obtain d1 where g: "getClient sv d = (Inr cl, d1)"
    using client by (cases "getClient sv d") simp
  note k = getClient_keeps [of sv d, unfolded g, simplified]
  obtain r' d4 where p: "refreshPostConfigure sv fs (d1\<lparr>hadConfigurationChanged := False\<rparr>) = (r', d4)"
    by (cases "refreshPostConfigure sv fs (d1\<lparr>hadConfigurationChanged := False\<rparr>)")
  have flag: "\<not> hadConfigurationChanged d4"
    using refreshPostConfigure_keeps(1) [of sv fs "d1\<lparr>hadConfigurationChanged := False\<rparr>"] p
    by simp
  have failed: "\<And>e d'. hadConfigurationChanged (snd (configure_failed e d')) = hadConfigurationChanged d'"
    "\<And>e d'. cmakeInputFileSet (snd (configure_failed e d')) = cmakeInputFileSet d'"
    "\<And>e d'. cacheEntries (snd (configure_failed e d')) = cacheEntries d'"
    "\<And>e d'. codeModel (snd (configure_failed e d')) = codeModel d'"
    "\<And>msg d'. fst (configure_failed (ServerError msg) d') = Inr 1"
    by (simp_all add: configure_failed_def split: exn.splits)
  show ?thesis
    by (cases "sv_configure sv args"; cases "sv_compute sv"; cases r')
       (auto simp: doConfigure_def pending g k p Let_def failed flag checkNeedsReconfigure_def)
qed

theorem C9_witness:
  "hadConfigurationChanged (doConfigureSettingsChange (configured ''Debug''))
   \<and> checkNeedsReconfigure fixture_fs (doConfigureSettingsChange (configured ''Debug''))
   \<and> fst (doConfigure rejecting_server fixture_fs [''-DFOO=1''] False
            (doConfigureSettingsChange (configured ''Debug''))) = Inr 1
   \<and> \<not> hadConfigurationChanged
         (snd (doConfigure rejecting_server fixture_fs [''-DFOO=1''] False
                 (doConfigureSettingsChange (configured ''Debug''))))
   \<and> \<not> checkNeedsReconfigure fixture_fs
         (snd (doConfigure rejecting_server fixture_fs [''-DFOO=1''] False
                 (doConfigureSettingsChange (configured ''Debug''))))
   \<and> checkNeedsReconfigure touched_fs
         (snd (doConfigure rejecting_server fixture_fs [''-DFOO=1''] False
                 (doConfigureSettingsChange (configured ''Debug''))))"
proof -
  let ?d = "doConfigureSettingsChange (configured ''Debug'')"
  have pending: "clientChangeInProgress ?d = None"
    by (simp add: doConfigureSettingsChange_def configured_fields)
  have client: "fst (getClient rejecting_server ?d) = Inr 0"
    by (simp add: getClient_cases doConfigureSettingsChange_def configured_fields)
  have files: "cmakeInputFileSet ?d =
     \<lparr>inputFiles = [\<lparr>filePath = ''/src/CMakeLists.txt'', mtime = Some 1\<rparr>]\<rparr>"
    by (simp add: doConfigureSettingsChange_def configured_fields)
  have rejects: "sv_configure rejecting_server [''-DFOO=1''] = Some (ServerError ''CMake Error'')"
    by (simp add: rejecting_server_def)
  have before: "hadConfigurationChanged ?d" "checkNeedsReconfigure fixture_fs ?d"
    by (simp_all add: doConfigureSettingsChange_def checkNeedsReconfigure_def)
  from C9_flag_cleared_before_request [OF pending client, of fixture_fs "[''-DFOO=1'']"] rejects
  have "fst (doConfigure rejecting_server fixture_fs [''-DFOO=1''] False ?d) = Inr 1
        \<and> \<not> hadConfigurationChanged (snd (doConfigure rejecting_server fixture_fs [''-DFOO=1''] False ?d))
        \<and> \<not> checkNeedsReconfigure fixture_fs
               (snd (doConfigure rejecting_server fixture_fs [''-DFOO=1''] False ?d))
        \<and> checkNeedsReconfigure touched_fs
               (snd (doConfigure rejecting_server fixture_fs [''-DFOO=1''] False ?d))"
    by (simp add: files checkOutOfDate_def fixture_fs_def touched_fs_def)
  with before show ?thesis by simp
qed

text \<open>
  Claim C8, as the code has it. \<open>doSetKit(cb)\<close> is \<open>doSetConfigurePreset(false, cb)\<close>. Every
  such call resets the recorded input file set to the empty set. If awaiting the current
  client promise yields null or a client, the mutation callback is run. If the callback
  throws, its error propagates and no client is started. If afterward no generator is
  resolvable, the operation fails with \<open>NoGeneratorError\<close>, no new client is started and
  \<open>_cmsClient\<close> is left as it was. Otherwise the client is restarted: when the server starts,
  the new client is the only one added to the live clients, after the old one was shut down,
  and the call returns what \<open>getGlobalSettings\<close> answers; when it does not start, that error
  propagates.
\<close>

theorem C8_setKitAndRestart:
  "doSetKit sv cb d = doSetConfigurePreset sv False cb d
   \<and> cmakeInputFileSet (snd (doSetConfigurePreset sv need_clean cb d)) = createEmpty
   \<and> (\<forall>cur. cmsClient d = Inr cur \<longrightarrow>
        base (snd (doSetConfigurePreset sv need_clean cb d)) = snd (cb (base d))
        \<and> (\<forall>e. fst (cb (base d)) = Some e \<longrightarrow>
              fst (doSetConfigurePreset sv need_clean cb d) = Inl e
              \<and> started (snd (doSetConfigurePreset sv need_clean cb d)) = started d)
        \<and> (fst (cb (base d)) = None \<and> generator (snd (cb (base d))) = None \<longrightarrow>
              fst (doSetConfigurePreset sv need_clean cb d) = Inl NoGeneratorError
              \<and> started (snd (doSetConfigurePreset sv need_clean cb d)) = started d
              \<and> cmsClient (snd (doSetConfigurePreset sv need_clean cb d)) = cmsClient d)
        \<and> (fst (cb (base d)) = None \<and> generator (snd (cb (base d))) \<noteq> None \<longrightarrow>
              (\<forall>e. sv_start sv = Some e \<longrightarrow>
                 fst (doSetConfigurePreset sv need_clean cb d) = Inl e
                 \<and> started (snd (doSetConfigurePreset sv need_clean cb d)) = started d)
              \<and> (sv_start sv = None \<longrightarrow>
                 started (snd (doSetConfigurePreset sv need_clean cb d)) = Suc (started d)
                 \<and> cmsClient (snd (doSetConfigurePreset sv need_clean cb d))
                     = Inr (Some (started d))
                 \<and> live (snd (doSetConfigurePreset sv need_clean cb d))
                     = (case cur of None \<Rightarrow> live d | Some c \<Rightarrow> removeAll c (live d))
                       @ [started d]
                 \<and> fst (doSetConfigurePreset sv need_clean cb d)
                     = (case sv_getGlobalSettings sv of Inl e \<Rightarrow> Inl e | Inr gs \<Rightarrow> Inr ()))))"
proof -
  obtain thrown b where cb: "cb (base d) = (thrown, b)"
    by (cases "cb (base d)")
  have rc: "\<And>rd. cmakeInputFileSet (snd (record_change rd)) = cmakeInputFileSet (snd rd)"
    "\<And>rd. base (snd (record_change rd)) = base (snd rd)"
    "\<And>rd. started (snd (record_change rd)) = started (snd rd)"
    "\<And>rd. live (snd (record_change rd)) = live (snd rd)"
    "\<And>rd. cmsClient (snd (record_change rd)) = cmsClient (snd rd)"
    "\<And>rd. fst (record_change rd) = fst rd"
    by (simp_all add: record_change_def split: prod.splits)
  have reset: "cmakeInputFileSet (snd (setKitAndRestart sv need_clean cb d)) = createEmpty"
    by (simp add: setKitAndRestart_def Let_def cb restartClient_keeps shutdownAsync_def
        cleanPriorConfiguration_def split: sum.splits option.splits)
  show ?thesis
  proof (cases "cmsClient d")
    case (Inl e)
    then show ?thesis
      using reset by (simp add: doSetKit_def doSetConfigurePreset_def rc)
  next
    case (Inr cur)
    let ?d3 = "(if need_clean
                then cleanPriorConfiguration (case cur of Some c \<Rightarrow> shutdownAsync c (d\<lparr>cmakeInputFileSet := createEmpty\<rparr>) | None \<Rightarrow> d\<lparr>cmakeInputFileSet := createEmpty\<rparr>)
                else (case cur of Some c \<Rightarrow> shutdownAsync c (d\<lparr>cmakeInputFileSet := createEmpty\<rparr>) | None \<Rightarrow> d\<lparr>cmakeInputFileSet := createEmpty\<rparr>))"
    have d3: "base ?d3 = base d" "cmsClient ?d3 = Inr cur" "started ?d3 = started d"
      "live ?d3 = (case cur of None \<Rightarrow> live d | Some c \<Rightarrow> removeAll c (live d))"
      using Inr by (simp_all add: cleanPriorConfiguration_def shutdownAsync_def split: option.splits)
    have unfold: "setKitAndRestart sv need_clean cb d =
        (case thrown of Some e \<Rightarrow> (Inl e, ?d3\<lparr>base := b\<rparr>)
         | None \<Rightarrow> if generator b = None then (Inl NoGeneratorError, ?d3\<lparr>base := b\<rparr>)
                   else restartClient sv (?d3\<lparr>base := b\<rparr>))"
      using Inr
      by (cases thrown; cases cur; cases need_clean)
         (simp_all add: setKitAndRestart_def Let_def cb cleanPriorConfiguration_def
            shutdownAsync_def)
    have d4: "cmsClient (?d3\<lparr>base := b\<rparr>) = Inr cur" "base (?d3\<lparr>base := b\<rparr>) = b"
      "started (?d3\<lparr>base := b\<rparr>) = started d"
      "live (?d3\<lparr>base := b\<rparr>) = (case cur of None \<Rightarrow> live d | Some c \<Rightarrow> removeAll c (live d))"
      using d3 by simp_all
    show ?thesis
    proof (cases thrown)
      case (Some e)
      then show ?thesis
        using reset Inr d4 by (simp add: doSetKit_def doSetConfigurePreset_def rc unfold cb)
    next
      case None
      show ?thesis
      proof (cases "generator b")
        case gen: None
        then show ?thesis
          using reset Inr d4 None by (simp add: doSetKit_def doSetConfigurePreset_def rc unfold cb)
      next
        case gen: (Some gname)
        then have g: "generator (base (?d3\<lparr>base := b\<rparr>)) \<noteq> None"
          using d4 by simp
        note rs = restartClient_started [OF d4(1) g]
        show ?thesis
          using reset Inr None gen rs d4
          by (cases "sv_start sv"; cases cur)
             (simp_all add: doSetKit_def doSetConfigurePreset_def rc unfold cb restartClient_keeps)
      qed
    qed
  qed
qed

theorem C8_witness:
  "cmsClient (configured ''Debug'') = Inr (Some 0)
   \<and> cmakeInputFileSet (snd (doSetKit fixture_server select_makefiles (configured ''Debug'')))
       = createEmpty
   \<and> generator (base (snd (doSetKit fixture_server select_makefiles (configured ''Debug''))))
       = Some ''Unix Makefiles''
   \<and> fst (doSetKit fixture_server select_makefiles (configured ''Debug'')) = Inr ()
   \<and> started (snd (doSetKit fixture_server select_makefiles (configured ''Debug''))) = 2
   \<and> live (snd (doSetKit fixture_server select_makefiles (configured ''Debug''))) = [1]
   \<and> fst (doSetKit fixture_server drop_generator (configured ''Debug'')) = Inl NoGeneratorError
   \<and> started (snd (doSetKit fixture_server drop_generator (configured ''Debug''))) = 1"
  using C8_setKitAndRestart [of fixture_server select_makefiles "configured ''Debug''" False]
        C8_setKitAndRestart [of fixture_server drop_generator "configured ''Debug''" False]
  by (simp add: configured_fields select_makefiles_def drop_generator_def fixture_base_simps
      fixture_server_def)

text \<open>
  Claim C8 as stated fails. The driver \<open>stranded\<close> went through one kit change during which
  the server could not be started, so \<open>_cmsClient\<close> is a rejected promise. In the next
  \<open>doSetKit\<close> the first \<open>await this._cmsClient\<close> throws that old error: the mutation callback,
  which would have selected a generator, is not run, and although a generator is resolvable
  and the server would start now, the client is not restarted.
\<close>

theorem C8_counterexample:
  "cmsClient stranded = Inl (Error ''spawn cmake ENOENT'')
   \<and> generator (snd (select_makefiles (base stranded))) = Some ''Unix Makefiles''
   \<and> fst (doSetKit fixture_server select_makefiles stranded) = Inl (Error ''spawn cmake ENOENT'')
   \<and> generator (base (snd (doSetKit fixture_server select_makefiles stranded))) = Some ''Ninja''
   \<and> started (snd (doSetKit fixture_server select_makefiles stranded)) = 0
   \<and> live (snd (doSetKit fixture_server select_makefiles stranded)) = []"
  by (simp add: doSetKit_def record_change_def setKitAndRestart_def Let_def stranded_fields
      select_makefiles_def fixture_base_simps)

section \<open>The configuration reader's update\<close>

lemma map_of_map_set: "map_of (map_set m k v) = (map_of m)(k \<mapsto> v)"
  by (induction m k v rule: map_set.induct) auto

lemma map_of_object_assign:
  "distinct (map fst s) \<Longrightarrow> map_of (object_assign t s) = map_of t ++ map_of s"
proof (induction s arbitrary: t)
  case Nil
  then show ?case by (simp add: object_assign_def)
next
  case (Cons kv s)
  obtain k v where kv: "kv = (k, v)" by (cases kv)
  from Cons.prems have k: "k \<notin> dom (map_of s)" and d: "distinct (map fst s)"
    by (auto simp: kv dom_map_of_conv_image_fst)
  have "map_of (object_assign t (kv # s)) = map_of (object_assign (map_set t k v) s)"
    by (simp add: object_assign_def kv)
  also have "\<dots> = (map_of t)(k \<mapsto> v) ++ map_of s"
    by (simp only: Cons.IH [OF d] map_of_map_set)
  also have "\<dots> = map_of t ++ map_of (kv # s)"
    using k by (simp add: kv map_add_upd_left)
  finally show ?case .
qed

lemma get_prop_object_assign:
  "distinct (map fst s) \<Longrightarrow>
   get_prop (object_assign t s) k = (if k \<in> fst ` set s then get_prop s k else get_prop t k)"
proof (cases "map_of s k")
  case None
  assume "distinct (map fst s)"
  moreover from None have "k \<notin> fst ` set s"
    by (simp add: map_of_eq_None_iff)
  ultimately show ?thesis
    using None by (simp add: get_prop_def map_of_object_assign map_add_def)
next
  case (Some v)
  assume "distinct (map fst s)"
  moreover from Some have "k \<in> fst ` set s"
    by (metis map_of_eq_None_iff option.distinct(1))
  ultimately show ?thesis
    using Some by (simp add: get_prop_def map_of_object_assign map_add_def)
qed

lemma update_loop_result:
  assumes "\<forall>k \<in> set ns. k \<notin> set object_prototype_keys"
  shows "update_loop cmp fireEvent old newData ns keys r =
     (Inr (keys @ filter (\<lambda>k. k \<in> set emitters
                             \<and> cmp (get_prop (configData r) k) (get_prop old k) \<noteq> Equivalent) ns),
      r\<lparr>invoked := invoked r @
          concat (map (\<lambda>k. if fireEvent \<and> k \<in> set emitters
                               \<and> cmp (get_prop (configData r) k) (get_prop old k) \<noteq> Equivalent
                               \<and> get_prop newData k \<noteq> Undefined
                            then calls k (get_prop newData k) (listeners r) else []) ns)\<rparr>)"
  using assms
proof (induction ns arbitrary: keys r fireEvent)
  case Nil
  then show ?case by simp
next
  case (Cons k ns)
  then have k: "k \<notin> set object_prototype_keys" and ns: "\<forall>k \<in> set ns. k \<notin> set object_prototype_keys"
    by simp_all
  note IH = Cons.IH [OF ns]
  show ?case
    by (simp add: IH in_emitters_def k fire_def cong del: if_weak_cong)
qed

lemma in_calls:
  "(s, cb, v) \<in> set (calls k w ls) \<longleftrightarrow> s = k \<and> v = w \<and> (k, cb) \<in> set ls"
  by (force simp: calls_def)

text \<open>
  Claim C10, as the code has it, for new data whose property names are distinct and none of
  which is the name of a property of \<open>Object.prototype\<close>. \<open>updatePartial(newData, fireEvent)\<close>
  returns exactly the keys of \<open>newData\<close> that have an emitter and whose new stored value is
  not equivalent to the previous one, in the order of \<open>newData\<close>; every key of \<open>newData\<close> is
  stored, with or without an emitter. The listeners of a setting are called, in order, once
  for each such key whose new value is not \<open>undefined\<close>, when \<open>fireEvent\<close> is set. So a
  listener is invoked only for a key present in \<open>newData\<close> whose new value is not equivalent
  to the previous stored value and is not \<open>undefined\<close>; a setting absent from \<open>newData\<close>, or
  present with an equivalent value, fires no change event.
\<close>

theorem C10_updatePartial:
  assumes distinct: "distinct (map fst newData)"
      and own: "\<forall>k \<in> fst ` set newData. k \<notin> set object_prototype_keys"
    shows
     "fst (updatePartial cmp newData fireEvent r) =
        Inr (filter (\<lambda>k. k \<in> set emitters
                          \<and> cmp (get_prop newData k) (get_prop (configData r) k) \<noteq> Equivalent)
               (map fst newData))
      \<and> (\<forall>k. get_prop (configData (snd (updatePartial cmp newData fireEvent r))) k
               = (if k \<in> fst ` set newData then get_prop newData k else get_prop (configData r) k))
      \<and> invoked (snd (updatePartial cmp newData fireEvent r)) =
          invoked r @
          concat (map (\<lambda>k. if fireEvent \<and> k \<in> set emitters
                               \<and> cmp (get_prop newData k) (get_prop (configData r) k) \<noteq> Equivalent
                               \<and> get_prop newData k \<noteq> Undefined
                            then calls k (get_prop newData k) (listeners r) else [])
                    (map fst newData))
      \<and> (\<forall>s cb v. (s, cb, v) \<in> set (invoked (snd (updatePartial cmp newData fireEvent r))) \<longrightarrow>
             (s, cb, v) \<in> set (invoked r)
             \<or> (fireEvent \<and> s \<in> fst ` set newData \<and> s \<in> set emitters
                 \<and> (s, cb) \<in> set (listeners r)
                 \<and> v = get_prop newData s \<and> v \<noteq> Undefined
                 \<and> cmp v (get_prop (configData r) s) \<noteq> Equivalent))"
proof -
  let ?r1 = "r\<lparr>configData := object_assign (configData r) newData\<rparr>"
  let ?ns = "map fst newData"
  have ns: "\<forall>k \<in> set ?ns. k \<notin> set object_prototype_keys"
    using own by simp
  have new: "get_prop (object_assign (configData r) newData) k = get_prop newData k"
    if "k \<in> fst ` set newData" for k
    using that distinct by (simp add: get_prop_object_assign)
  have keys: "filter (\<lambda>k. k \<in> set emitters
                  \<and> cmp (get_prop (configData ?r1) k) (get_prop (configData r) k) \<noteq> Equivalent) ?ns
            = filter (\<lambda>k. k \<in> set emitters
                  \<and> cmp (get_prop newData k) (get_prop (configData r) k) \<noteq> Equivalent) ?ns"
    by (rule filter_cong [OF refl]) (simp add: new)
  have fired: "map (\<lambda>k. if fireEvent \<and> k \<in> set emitters
                     \<and> cmp (get_prop (configData ?r1) k) (get_prop (configData r) k) \<noteq> Equivalent
                     \<and> get_prop newData k \<noteq> Undefined
                  then calls k (get_prop newData k) (listeners ?r1) else []) ?ns
             = map (\<lambda>k. if fireEvent \<and> k \<in> set emitters
                     \<and> cmp (get_prop newData k) (get_prop (configData r) k) \<noteq> Equivalent
                     \<and> get_prop newData k \<noteq> Undefined
                  then calls k (get_prop newData k) (listeners r) else []) ?ns"
    by (rule map_cong [OF refl]) (simp add: new)
  have run: "updatePartial cmp newData fireEvent r =
      (Inr (filter (\<lambda>k. k \<in> set emitters
                  \<and> cmp (get_prop newData k) (get_prop (configData r) k) \<noteq> Equivalent) ?ns),
       ?r1\<lparr>invoked := invoked r @
          concat (map (\<lambda>k. if fireEvent \<and> k \<in> set emitters
                     \<and> cmp (get_prop newData k) (get_prop (configData r) k) \<noteq> Equivalent
                     \<and> get_prop newData k \<noteq> Undefined
                  then calls k (get_prop newData k) (listeners r) else []) ?ns)\<rparr>)"
    unfolding updatePartial_def update_loop_result [OF ns] keys fired by simp
  have stored: "get_prop (object_assign (configData r) newData) k
                  = (if k \<in> fst ` set newData then get_prop newData k else get_prop (configData r) k)"
    for k
    using distinct by (rule get_prop_object_assign)
  have only: "(s, cb, v) \<in> set (invoked r)
              \<or> (fireEvent \<and> s \<in> fst ` set newData \<and> s \<in> set emitters
                  \<and> (s, cb) \<in> set (listeners r)
                  \<and> v = get_prop newData s \<and> v \<noteq> Undefined
                  \<and> cmp v (get_prop (configData r) s) \<noteq> Equivalent)"
    if "(s, cb, v) \<in> set (invoked (snd (updatePartial cmp newData fireEvent r)))" for s cb v
    using that by (auto simp: run in_calls split: if_splits)
  show ?thesis
    using only by (simp add: run stored)
qed

theorem C10_witness:
  "distinct (map fst fixture_newData)
   \<and> fst (updatePartial compare_numbers fixture_newData True fixture_reader) = Inr [''generator'']
   \<and> invoked (snd (updatePartial compare_numbers fixture_newData True fixture_reader))
       = [(''generator'', 7, Defined 1), (''generator'', 9, Defined 1)]
   \<and> invoked (snd (updatePartial compare_numbers fixture_newData False fixture_reader)) = []"
proof -
  have d: "distinct (map fst fixture_newData)"
    by (simp add: fixture_newData_def)
  have own: "\<forall>k \<in> fst ` set fixture_newData. k \<notin> set object_prototype_keys"
    by (simp add: fixture_newData_def object_prototype_keys_def)
  have in_table: "''generator'' \<in> set emitters" "''buildDirectory'' \<in> set emitters"
    "''extra'' \<notin> set emitters"
    by (simp_all add: emitters_def)
  from C10_updatePartial [OF d own, of compare_numbers True fixture_reader]
       C10_updatePartial [OF d own, of compare_numbers False fixture_reader]
  show ?thesis
    by (simp add: d fixture_newData_def fixture_reader_def get_prop_def compare_numbers_def
        in_table calls_def)
qed

text \<open>
  Claim C10 as stated fails in its second part. The new data changes the stored value of
  \<open>extra\<close> from 0 to 1, which the comparison does not find equivalent, but \<open>extra\<close> has no
  emitter, and the returned list is \<open>generator\<close> alone.
\<close>

theorem C10_counterexample:
  "fst (update compare_numbers fixture_newData fixture_reader) = Inr [''generator'']
   \<and> get_prop (configData fixture_reader) ''extra'' = Defined 0
   \<and> get_prop (configData (snd (update compare_numbers fixture_newData fixture_reader))) ''extra''
       = Defined 1
   \<and> compare_numbers (Defined 1) (Defined 0) = Greater"
proof -
  have in_table: "''generator'' \<in> set emitters" "''buildDirectory'' \<in> set emitters"
    "''extra'' \<notin> set emitters"
    by (simp_all add: emitters_def)
  have not_inherited: "''generator'' \<notin> set object_prototype_keys"
    "''buildDirectory'' \<notin> set object_prototype_keys" "''extra'' \<notin> set object_prototype_keys"
    by (simp_all add: object_prototype_keys_def)
  show ?thesis
    by (simp add: update_def updatePartial_def fixture_newData_def fixture_reader_def
        object_assign_def in_emitters_def in_table not_inherited get_prop_def
        compare_numbers_def fire_def)
qed

end
